theory Spec2Isabelle
  imports Complex_Main "HOL-Library.Multiset"
begin

section \<open>Library functions the engine calls\<close>

text \<open>
  Go's \<^verbatim>\<open>float64\<close> is modelled by \<^typ>\<open>real\<close>: every sum, product and quotient of the
  source is the exact one. The rounding of float64 is modelled for the cost aggregator
  alone, in a section of its own. Strings are byte lists.
\<close>

subsection \<open>strings.ToLower and strings.Contains\<close>

text \<open>
  \<^verbatim>\<open>strings.ToLower\<close> as it acts on ASCII text: the bytes \<^verbatim>\<open>A\<close> .. \<^verbatim>\<open>Z\<close> become
  \<^verbatim>\<open>a\<close> .. \<^verbatim>\<open>z\<close> and every other byte is kept. The case mapping of code points beyond
  ASCII is not modelled.
\<close>

definition ToLower_char :: "char \<Rightarrow> char" where
  "ToLower_char c =
     (case map_of (zip ''ABCDEFGHIJKLMNOPQRSTUVWXYZ'' ''abcdefghijklmnopqrstuvwxyz'') c of
        Some d \<Rightarrow> d
      | None \<Rightarrow> c)"

definition ToLower :: "string \<Rightarrow> string" where
  "ToLower s = map ToLower_char s"

fun HasPrefix :: "string \<Rightarrow> string \<Rightarrow> bool" where
  "HasPrefix s [] = True"
| "HasPrefix [] (p # ps) = False"
| "HasPrefix (c # s) (p # ps) = (c = p \<and> HasPrefix s ps)"

text \<open>\<^verbatim>\<open>strings.Contains(s, substr)\<close>: \<open>substr\<close> occurs in \<open>s\<close> as a contiguous block.\<close>

fun Contains :: "string \<Rightarrow> string \<Rightarrow> bool" where
  "Contains [] substr = (substr = [])"
| "Contains (c # s) substr = (HasPrefix (c # s) substr \<or> Contains s substr)"

subsection \<open>time.Time and time.Duration\<close>

text \<open>
  A \<^verbatim>\<open>time.Duration\<close> is a signed 64-bit count of nanoseconds; an instant is modelled
  by its count of nanoseconds from a fixed origin. \<^verbatim>\<open>t.Sub(u)\<close> saturates at the
  largest and smallest duration.
\<close>

type_synonym Duration = int
type_synonym Time = int

definition maxDuration :: Duration where
  "maxDuration = 2 ^ 63 - 1"

definition minDuration :: Duration where
  "minDuration = - (2 ^ 63)"

definition Sub :: "Time \<Rightarrow> Time \<Rightarrow> Duration" where
  "Sub t u =
     (let d = t - u in
      if d < minDuration then minDuration
      else if maxDuration < d then maxDuration
      else d)"

text \<open>
  \<^verbatim>\<open>d.Seconds()\<close> and \<^verbatim>\<open>d.Minutes()\<close>: the whole units plus the remaining nanoseconds over
  the unit, which is the exact quotient.
\<close>

definition Seconds :: "Duration \<Rightarrow> real" where
  "Seconds d = real_of_int d / 1000000000"

definition Minutes :: "Duration \<Rightarrow> real" where
  "Minutes d = real_of_int d / 60000000000"

subsection \<open>fmt.Sprintf verbs\<close>

fun fmt_nat :: "nat \<Rightarrow> string" where
  "fmt_nat n =
     (if n < 10 then [''0123456789'' ! n]
      else fmt_nat (n div 10) @ [''0123456789'' ! (n mod 10)])"

declare fmt_nat.simps [simp del]

text \<open>The verb \<^verbatim>\<open>%d\<close>.\<close>

definition fmt_d :: "int \<Rightarrow> string" where
  "fmt_d i = (if i < 0 then ''-'' @ fmt_nat (nat (- i)) else fmt_nat (nat i))"

definition round_half_even :: "real \<Rightarrow> int" where
  "round_half_even x =
     (let f = \<lfloor>x\<rfloor>; d = x - of_int f in
      if d < 1 / 2 then f
      else if 1 / 2 < d then f + 1
      else if even f then f
      else f + 1)"

text \<open>The verb \<^verbatim>\<open>%.Nf\<close>: \<open>N\<close> decimals, the last one rounded half to even.\<close>

definition fmt_f :: "nat \<Rightarrow> real \<Rightarrow> string" where
  "fmt_f prec x =
     (let ds = fmt_nat (nat (round_half_even (\<bar>x\<bar> * 10 ^ prec)));
          padded = replicate (prec + 1 - length ds) (CHR ''0'') @ ds;
          whole = take (length padded - prec) padded;
          frac = drop (length padded - prec) padded
      in (if x < 0 then ''-'' else []) @ whole @ (if prec = 0 then [] else ''.'' @ frac))"

subsection \<open>sort.Slice\<close>

text \<open>
  \<^verbatim>\<open>sort.Slice(x, less)\<close> sorts \<open>x\<close> by \<open>less\<close> and is documented as not stable: what it
  promises is a rearrangement of the slice in which no element is \<open>less\<close> than one placed
  before it. The functions that call it take the sorting function as the argument \<open>srt\<close>;
  \<open>sort_Slice_ok srt lt\<close> is that promise.
\<close>

definition sort_Slice_ok ::
  "(('a \<Rightarrow> 'a \<Rightarrow> bool) \<Rightarrow> 'a list \<Rightarrow> 'a list) \<Rightarrow> ('a \<Rightarrow> 'a \<Rightarrow> bool) \<Rightarrow> bool" where
  "sort_Slice_ok srt lt =
     (\<forall>xs. mset (srt lt xs) = mset xs \<and> sorted_wrt (\<lambda>a b. \<not> lt b a) (srt lt xs))"

text \<open>
  Two sorting functions that keep the promise: insertion sort that puts an element before
  its equals of later origin (stable), and one that puts it behind them.
\<close>

fun insert_before :: "('a \<Rightarrow> 'a \<Rightarrow> bool) \<Rightarrow> 'a \<Rightarrow> 'a list \<Rightarrow> 'a list" where
  "insert_before lt x [] = [x]"
| "insert_before lt x (y # ys) =
     (if lt y x then y # insert_before lt x ys else x # y # ys)"

fun sort_stable :: "('a \<Rightarrow> 'a \<Rightarrow> bool) \<Rightarrow> 'a list \<Rightarrow> 'a list" where
  "sort_stable lt [] = []"
| "sort_stable lt (x # xs) = insert_before lt x (sort_stable lt xs)"

fun insert_behind :: "('a \<Rightarrow> 'a \<Rightarrow> bool) \<Rightarrow> 'a \<Rightarrow> 'a list \<Rightarrow> 'a list" where
  "insert_behind lt x [] = [x]"
| "insert_behind lt x (y # ys) =
     (if lt x y then x # y # ys else y # insert_behind lt x ys)"

fun sort_reversing :: "('a \<Rightarrow> 'a \<Rightarrow> bool) \<Rightarrow> 'a list \<Rightarrow> 'a list" where
  "sort_reversing lt [] = []"
| "sort_reversing lt (x # xs) = insert_behind lt x (sort_reversing lt xs)"

text \<open>
  The sort the specification words: descending by a key, entries of equal key in the order
  they had.
\<close>

definition stable_desc :: "('a \<Rightarrow> real) \<Rightarrow> 'a list \<Rightarrow> 'a list" where
  "stable_desc f xs = sort_key (\<lambda>x. - f x) xs"

text \<open>
  Go leaves the order in which \<^verbatim>\<open>range\<close> visits the keys of a map open, and it changes from
  run to run. The order of one run is a list \<open>ks\<close>; \<open>range_order ks m\<close> says that it
  visits every key of \<open>m\<close> once.
\<close>

definition range_order :: "'k list \<Rightarrow> ('k \<rightharpoonup> 'v) \<Rightarrow> bool" where
  "range_order ks m = (distinct ks \<and> set ks = dom m)"

text \<open>\<^verbatim>\<open>m[k] += v\<close> on a map of numbers: a missing key reads as zero.\<close>

definition add_at :: "('k \<rightharpoonup> real) \<Rightarrow> 'k \<Rightarrow> real \<Rightarrow> ('k \<rightharpoonup> real)" where
  "add_at m k v = m(k \<mapsto> (case m k of None \<Rightarrow> 0 | Some x \<Rightarrow> x) + v)"

section \<open>Data model\<close>

text \<open>The records fetched from the API (\<^verbatim>\<open>Step\<close> and \<^verbatim>\<open>Job\<close> of the main file).\<close>

record Step =
  Step_Name :: string
  Step_Conclusion :: string
  Step_StartedAt :: Time
  Step_CompletedAt :: Time

record Job =
  Job_Name :: string
  Job_Workflow :: string
  Job_Conclusion :: string
  Job_Labels :: "string list"
  Job_StartedAt :: Time
  Job_CompletedAt :: Time
  Job_Steps :: "Step list"

section \<open>Rate resolver\<close>

definition RateLinux :: real where
  "RateLinux = 0.008"

definition RateWindows :: real where
  "RateWindows = 0.016"

definition RateMacOS :: real where
  "RateMacOS = 0.08"

text \<open>\<^verbatim>\<open>RunnerRate\<close>: the loop over the labels returns at the first label that matches.\<close>

fun RunnerRate :: "string list \<Rightarrow> real" where
  "RunnerRate [] = 0.008"
| "RunnerRate (l # ls) =
     (let low = ToLower l in
      if Contains low ''macos'' then 0.08
      else if Contains low ''windows'' then 0.016
      else RunnerRate ls)"

definition rateForOS :: "string \<Rightarrow> real" where
  "rateForOS osLabel =
     (let low = ToLower osLabel in
      if Contains low ''macos'' then RateMacOS
      else if Contains low ''windows'' then RateWindows
      else RateLinux)"

definition resolveRate :: "string list \<Rightarrow> string \<Rightarrow> real" where
  "resolveRate labels defaultOS =
     (if length labels > 0 then RunnerRate labels else rateForOS defaultOS)"

section \<open>Structured recommendations\<close>

text \<open>
  The input of the detectors: the record \<^verbatim>\<open>CostReport\<close> that the recommendations file
  declares for itself (the job list and the observation window in days).
\<close>

record RecCostReport =
  Jobs :: "Job list"
  Days :: int

record Recommendation =
  RuleID :: string
  Severity :: string
  EstimatedMonthlySavings :: real
  Fix :: string

definition monthlyScale :: "int \<Rightarrow> real" where
  "monthlyScale days = (if days \<le> 0 then 1 else 30.0 / real_of_int days)"

definition apostrophe :: string where
  "apostrophe = [CHR 0x27]"

subsection \<open>DetectCacheMiss\<close>

definition cacheMiss_keywords :: "string list" where
  "cacheMiss_keywords = [''install'', ''npm ci'', ''pip install'', ''go mod download'']"

text \<open>The loop over the keywords, left at the first one the name contains.\<close>

fun matched :: "string \<Rightarrow> string list \<Rightarrow> bool" where
  "matched sn [] = False"
| "matched sn (kw # kws) = (if Contains sn kw then True else matched sn kws)"

definition cacheMiss_Fix :: "string \<Rightarrow> real \<Rightarrow> string" where
  "cacheMiss_Fix name durSec =
     ''Add actions/cache for step '' @ apostrophe @ name @ apostrophe @ '' (took '' @
     fmt_f 0 durSec @ ''s). Caching dependencies can reduce this step by ~70%.''"

fun DetectCacheMiss_steps ::
  "int \<Rightarrow> real \<Rightarrow> Step list \<Rightarrow> Recommendation list \<Rightarrow> Recommendation list" where
  "DetectCacheMiss_steps days rate [] recs = recs"
| "DetectCacheMiss_steps days rate (s # ss) recs =
     (let durSec = Seconds (Sub (Step_CompletedAt s) (Step_StartedAt s)) in
      if durSec \<le> 60 then DetectCacheMiss_steps days rate ss recs
      else
        let sn = ToLower (Step_Name s) in
        if \<not> matched sn cacheMiss_keywords then DetectCacheMiss_steps days rate ss recs
        else
          let savedMin = (durSec * 0.7) / 60.0;
              scale = monthlyScale days;
              monthlySavings = savedMin * rate * scale
          in DetectCacheMiss_steps days rate ss
               (recs @ [\<lparr>RuleID = ''cache-miss'', Severity = ''high'',
                          EstimatedMonthlySavings = monthlySavings,
                          Fix = cacheMiss_Fix (Step_Name s) durSec\<rparr>]))"

fun DetectCacheMiss_jobs ::
  "int \<Rightarrow> Job list \<Rightarrow> Recommendation list \<Rightarrow> Recommendation list" where
  "DetectCacheMiss_jobs days [] recs = recs"
| "DetectCacheMiss_jobs days (j # js) recs =
     DetectCacheMiss_jobs days js
       (DetectCacheMiss_steps days (RunnerRate (Job_Labels j)) (Job_Steps j) recs)"

definition DetectCacheMiss :: "RecCostReport \<Rightarrow> Recommendation list" where
  "DetectCacheMiss cr = DetectCacheMiss_jobs (Days cr) (Jobs cr) []"

subsection \<open>DetectLongCheckout\<close>

definition longCheckout_Fix :: "string \<Rightarrow> real \<Rightarrow> string" where
  "longCheckout_Fix name durSec =
     ''Use shallow clone (fetch-depth: 1) for step '' @ apostrophe @ name @ apostrophe @
     '' (took '' @ fmt_f 0 durSec @ ''s). This can cut checkout time by ~50%.''"

fun DetectLongCheckout_steps ::
  "int \<Rightarrow> real \<Rightarrow> Step list \<Rightarrow> Recommendation list \<Rightarrow> Recommendation list" where
  "DetectLongCheckout_steps days rate [] recs = recs"
| "DetectLongCheckout_steps days rate (s # ss) recs =
     (let durSec = Seconds (Sub (Step_CompletedAt s) (Step_StartedAt s)) in
      if durSec \<le> 30 then DetectLongCheckout_steps days rate ss recs
      else
        let sn = ToLower (Step_Name s) in
        if \<not> Contains sn ''checkout'' then DetectLongCheckout_steps days rate ss recs
        else
          let savedMin = (durSec * 0.5) / 60.0;
              scale = monthlyScale days;
              monthlySavings = savedMin * rate * scale
          in DetectLongCheckout_steps days rate ss
               (recs @ [\<lparr>RuleID = ''long-checkout'', Severity = ''low'',
                          EstimatedMonthlySavings = monthlySavings,
                          Fix = longCheckout_Fix (Step_Name s) durSec\<rparr>]))"

fun DetectLongCheckout_jobs ::
  "int \<Rightarrow> Job list \<Rightarrow> Recommendation list \<Rightarrow> Recommendation list" where
  "DetectLongCheckout_jobs days [] recs = recs"
| "DetectLongCheckout_jobs days (j # js) recs =
     DetectLongCheckout_jobs days js
       (DetectLongCheckout_steps days (RunnerRate (Job_Labels j)) (Job_Steps j) recs)"

definition DetectLongCheckout :: "RecCostReport \<Rightarrow> Recommendation list" where
  "DetectLongCheckout cr = DetectLongCheckout_jobs (Days cr) (Jobs cr) []"

subsection \<open>DetectDuplicateSteps\<close>

text \<open>
  \<^verbatim>\<open>stepJobs\<close> maps a step name to the set of the job names that have a step of that
  name (a \<^verbatim>\<open>map[string]map[string]bool\<close> whose inner values are all \<^verbatim>\<open>true\<close>).
\<close>

type_synonym StepJobs = "string \<rightharpoonup> string set"

definition stepJobs_add :: "StepJobs \<Rightarrow> string \<Rightarrow> string \<Rightarrow> StepJobs" where
  "stepJobs_add m stepName jobName =
     m(stepName \<mapsto> insert jobName (case m stepName of None \<Rightarrow> {} | Some jobs \<Rightarrow> jobs))"

fun stepJobs_steps :: "string \<Rightarrow> Step list \<Rightarrow> StepJobs \<Rightarrow> StepJobs" where
  "stepJobs_steps jobName [] m = m"
| "stepJobs_steps jobName (s # ss) m =
     stepJobs_steps jobName ss (stepJobs_add m (Step_Name s) jobName)"

fun stepJobs_jobs :: "Job list \<Rightarrow> StepJobs \<Rightarrow> StepJobs" where
  "stepJobs_jobs [] m = m"
| "stepJobs_jobs (j # js) m = stepJobs_jobs js (stepJobs_steps (Job_Name j) (Job_Steps j) m)"

definition stepJobs :: "RecCostReport \<Rightarrow> StepJobs" where
  "stepJobs cr = stepJobs_jobs (Jobs cr) Map.empty"

definition duplicateSteps_Fix :: "string \<Rightarrow> nat \<Rightarrow> string" where
  "duplicateSteps_Fix stepName n =
     ''Step '' @ apostrophe @ stepName @ apostrophe @ '' appears in '' @ fmt_d (int n) @
     '' jobs. Consider using a matrix strategy or reusable workflow to reduce duplication.''"

text \<open>The \<^verbatim>\<open>range\<close> over \<^verbatim>\<open>stepJobs\<close>, visiting the keys in the order \<open>ks\<close>.\<close>

fun DetectDuplicateSteps_range ::
  "StepJobs \<Rightarrow> string list \<Rightarrow> Recommendation list \<Rightarrow> Recommendation list" where
  "DetectDuplicateSteps_range m [] recs = recs"
| "DetectDuplicateSteps_range m (stepName # ks) recs =
     (case m stepName of
        None \<Rightarrow> DetectDuplicateSteps_range m ks recs
      | Some jobs \<Rightarrow>
          if card jobs < 2 then DetectDuplicateSteps_range m ks recs
          else DetectDuplicateSteps_range m ks
                 (recs @ [\<lparr>RuleID = ''duplicate-steps'', Severity = ''medium'',
                            EstimatedMonthlySavings = real_of_int (int (card jobs) - 1) * 5.0,
                            Fix = duplicateSteps_Fix stepName (card jobs)\<rparr>]))"

definition DetectDuplicateSteps :: "string list \<Rightarrow> RecCostReport \<Rightarrow> Recommendation list" where
  "DetectDuplicateSteps ks cr = DetectDuplicateSteps_range (stepJobs cr) ks []"

subsection \<open>DetectExpensiveOS\<close>

fun isMac :: "string list \<Rightarrow> bool" where
  "isMac [] = False"
| "isMac (l # ls) = (if Contains (ToLower l) ''macos'' then True else isMac ls)"

definition expensiveOS_Fix :: "string \<Rightarrow> real \<Rightarrow> string" where
  "expensiveOS_Fix name durMin =
     ''Job '' @ apostrophe @ name @ apostrophe @ '' runs on macOS for '' @ fmt_f 1 durMin @
     '' min ($'' @ fmt_f 2 (durMin * 0.08) @
     ''/run). macOS runners cost 10x Linux. Move non-GUI tests to ubuntu-latest to save ~90%.''"

fun DetectExpensiveOS_jobs ::
  "int \<Rightarrow> Job list \<Rightarrow> Recommendation list \<Rightarrow> Recommendation list" where
  "DetectExpensiveOS_jobs days [] recs = recs"
| "DetectExpensiveOS_jobs days (j # js) recs =
     (if \<not> isMac (Job_Labels j) then DetectExpensiveOS_jobs days js recs
      else
        let durMin = Minutes (Sub (Job_CompletedAt j) (Job_StartedAt j)) in
        if durMin \<le> 5 then DetectExpensiveOS_jobs days js recs
        else
          let scale = monthlyScale days;
              monthlySavings = durMin * (0.08 - 0.008) * scale
          in DetectExpensiveOS_jobs days js
               (recs @ [\<lparr>RuleID = ''expensive-os'', Severity = ''high'',
                          EstimatedMonthlySavings = monthlySavings,
                          Fix = expensiveOS_Fix (Job_Name j) durMin\<rparr>]))"

definition DetectExpensiveOS :: "RecCostReport \<Rightarrow> Recommendation list" where
  "DetectExpensiveOS cr = DetectExpensiveOS_jobs (Days cr) (Jobs cr) []"

subsection \<open>GenerateRecommendations\<close>

definition GenerateRecommendations :: "string list \<Rightarrow> RecCostReport \<Rightarrow> Recommendation list" where
  "GenerateRecommendations ks cr =
     (let recs = [];
          recs = recs @ DetectCacheMiss cr;
          recs = recs @ DetectLongCheckout cr;
          recs = recs @ DetectDuplicateSteps ks cr;
          recs = recs @ DetectExpensiveOS cr
      in recs)"

subsection \<open>Inputs for the examples\<close>

text \<open>
  Three jobs on "ubuntu-latest" with steps of ten seconds: "lint" is a step of two of them,
  "unit tests" of all three.
\<close>

definition two_duplicates :: RecCostReport where
  "two_duplicates =
     \<lparr>Jobs =
        [\<lparr>Job_Name = ''build'', Job_Workflow = ''CI'', Job_Conclusion = ''success'',
          Job_Labels = [''ubuntu-latest''], Job_StartedAt = 0, Job_CompletedAt = 300000000000,
          Job_Steps =
            [\<lparr>Step_Name = ''lint'', Step_Conclusion = ''success'', Step_StartedAt = 0,
              Step_CompletedAt = 10000000000\<rparr>,
             \<lparr>Step_Name = ''unit tests'', Step_Conclusion = ''success'', Step_StartedAt = 0,
              Step_CompletedAt = 10000000000\<rparr>]\<rparr>,
         \<lparr>Job_Name = ''test'', Job_Workflow = ''CI'', Job_Conclusion = ''success'',
          Job_Labels = [''ubuntu-latest''], Job_StartedAt = 0, Job_CompletedAt = 300000000000,
          Job_Steps =
            [\<lparr>Step_Name = ''lint'', Step_Conclusion = ''success'', Step_StartedAt = 0,
              Step_CompletedAt = 10000000000\<rparr>,
             \<lparr>Step_Name = ''unit tests'', Step_Conclusion = ''success'', Step_StartedAt = 0,
              Step_CompletedAt = 10000000000\<rparr>]\<rparr>,
         \<lparr>Job_Name = ''deploy'', Job_Workflow = ''CI'', Job_Conclusion = ''success'',
          Job_Labels = [''ubuntu-latest''], Job_StartedAt = 0, Job_CompletedAt = 300000000000,
          Job_Steps =
            [\<lparr>Step_Name = ''unit tests'', Step_Conclusion = ''success'', Step_StartedAt = 0,
              Step_CompletedAt = 10000000000\<rparr>]\<rparr>],
      Days = 7\<rparr>"

text \<open>
  The input of the repository's combined test: a job "build" of ten minutes on
  "macos-latest" with the steps "npm install" (90 s) and "Checkout" (45 s), and a job
  "test" of five minutes on "ubuntu-latest" with the step "npm install" (90 s); 7 days.
\<close>

definition combined :: RecCostReport where
  "combined =
     \<lparr>Jobs =
        [\<lparr>Job_Name = ''build'', Job_Workflow = ''CI'', Job_Conclusion = ''success'',
          Job_Labels = [''macos-latest''], Job_StartedAt = 0, Job_CompletedAt = 600000000000,
          Job_Steps =
            [\<lparr>Step_Name = ''npm install'', Step_Conclusion = ''success'', Step_StartedAt = 0,
              Step_CompletedAt = 90000000000\<rparr>,
             \<lparr>Step_Name = ''Checkout'', Step_Conclusion = ''success'', Step_StartedAt = 0,
              Step_CompletedAt = 45000000000\<rparr>]\<rparr>,
         \<lparr>Job_Name = ''test'', Job_Workflow = ''CI'', Job_Conclusion = ''success'',
          Job_Labels = [''ubuntu-latest''], Job_StartedAt = 0, Job_CompletedAt = 300000000000,
          Job_Steps =
            [\<lparr>Step_Name = ''npm install'', Step_Conclusion = ''success'', Step_StartedAt = 0,
              Step_CompletedAt = 90000000000\<rparr>]\<rparr>],
      Days = 7\<rparr>"

section \<open>Cost aggregator\<close>

record StepAnalysis =
  StepAnalysis_Name :: string
  StepAnalysis_Duration :: Duration

record JobAnalysis =
  JobAnalysis_Name :: string
  JobAnalysis_Duration :: Duration
  JobAnalysis_Labels :: "string list"
  JobAnalysis_Steps :: "StepAnalysis list"

record WorkflowAnalysis =
  WorkflowAnalysis_Name :: string
  WorkflowAnalysis_Jobs :: "JobAnalysis list"

record StepCostEntry =
  Entry_Workflow :: string
  Entry_Job :: string
  Entry_Step :: string
  Entry_Cost :: real
  Entry_Minutes :: real

record CostReport =
  PerStep :: "StepCostEntry list"
  PerJob :: "string \<rightharpoonup> real"
  PerWorkflow :: "string \<rightharpoonup> real"
  TotalCost :: real
  ProjectedCost30 :: real
  TopSteps :: "StepCostEntry list"

text \<open>The loop over the steps of one job; \<open>allSteps\<close> is the list built so far.\<close>

fun CalculateCost_steps ::
  "string \<Rightarrow> string \<Rightarrow> real \<Rightarrow> StepAnalysis list \<Rightarrow> StepCostEntry list \<Rightarrow> StepCostEntry list" where
  "CalculateCost_steps wfName jobName rate [] allSteps = allSteps"
| "CalculateCost_steps wfName jobName rate (step # steps) allSteps =
     (let stepMinutes = Minutes (StepAnalysis_Duration step) in
      if stepMinutes \<le> 0 then CalculateCost_steps wfName jobName rate steps allSteps
      else
        let stepCost = stepMinutes * rate;
            entry = \<lparr>Entry_Workflow = wfName, Entry_Job = jobName,
                     Entry_Step = StepAnalysis_Name step, Entry_Cost = stepCost,
                     Entry_Minutes = stepMinutes\<rparr>
        in CalculateCost_steps wfName jobName rate steps (allSteps @ [entry]))"

text \<open>The loop over the jobs of one workflow, on \<^verbatim>\<open>report.PerJob\<close>, \<open>wfCost\<close> and \<open>allSteps\<close>.\<close>

fun CalculateCost_jobs ::
  "string \<Rightarrow> string \<Rightarrow> JobAnalysis list \<Rightarrow> (string \<rightharpoonup> real) \<times> real \<times> StepCostEntry list \<Rightarrow>
   (string \<rightharpoonup> real) \<times> real \<times> StepCostEntry list" where
  "CalculateCost_jobs defaultOS wfName [] (perJob, wfCost, allSteps) = (perJob, wfCost, allSteps)"
| "CalculateCost_jobs defaultOS wfName (job # jobs) (perJob, wfCost, allSteps) =
     (let rate = resolveRate (JobAnalysis_Labels job) defaultOS;
          jobMinutes = Minutes (JobAnalysis_Duration job)
      in
      if jobMinutes \<le> 0 then CalculateCost_jobs defaultOS wfName jobs (perJob, wfCost, allSteps)
      else
        let jobCost = jobMinutes * rate in
        CalculateCost_jobs defaultOS wfName jobs
          (add_at perJob (JobAnalysis_Name job) jobCost,
           wfCost + jobCost,
           CalculateCost_steps wfName (JobAnalysis_Name job) rate (JobAnalysis_Steps job) allSteps))"

text \<open>The loop over the workflows, on the report and \<open>allSteps\<close>.\<close>

fun CalculateCost_workflows ::
  "string \<Rightarrow> WorkflowAnalysis list \<Rightarrow> CostReport \<times> StepCostEntry list \<Rightarrow>
   CostReport \<times> StepCostEntry list" where
  "CalculateCost_workflows defaultOS [] (report, allSteps) = (report, allSteps)"
| "CalculateCost_workflows defaultOS (wflow # wflows) (report, allSteps) =
     (case CalculateCost_jobs defaultOS (WorkflowAnalysis_Name wflow) (WorkflowAnalysis_Jobs wflow)
             (PerJob report, 0, allSteps) of
        (perJob, wfCost, allSteps') \<Rightarrow>
          CalculateCost_workflows defaultOS wflows
            (report\<lparr>PerJob := perJob,
                    PerWorkflow := add_at (PerWorkflow report) (WorkflowAnalysis_Name wflow) wfCost,
                    TotalCost := TotalCost report + wfCost\<rparr>,
             allSteps'))"

definition CalculateCost ::
  "((StepCostEntry \<Rightarrow> StepCostEntry \<Rightarrow> bool) \<Rightarrow> StepCostEntry list \<Rightarrow> StepCostEntry list) \<Rightarrow>
   WorkflowAnalysis list \<Rightarrow> string \<Rightarrow> int \<Rightarrow> CostReport" where
  "CalculateCost srt analyses defaultOS observationDays =
     (let observationDays = (if observationDays \<le> 0 then 1 else observationDays);
          report = \<lparr>PerStep = [], PerJob = Map.empty, PerWorkflow = Map.empty, TotalCost = 0,
                    ProjectedCost30 = 0, TopSteps = []\<rparr>
      in
      case CalculateCost_workflows defaultOS analyses (report, []) of
        (report, allSteps) \<Rightarrow>
          let report = report\<lparr>PerStep := allSteps\<rparr>;
              sortedSteps = srt (\<lambda>a b. Entry_Cost a > Entry_Cost b) allSteps;
              topN = (if length sortedSteps < 5 then length sortedSteps else 5);
              report = report\<lparr>TopSteps := take topN sortedSteps\<rparr>;
              dailyCost = TotalCost report / real_of_int observationDays
          in report\<lparr>ProjectedCost30 := dailyCost * 30\<rparr>)"

text \<open>
  An input for the ranking: one job of fourteen minutes on "ubuntu-latest" with thirteen
  steps, twelve of one minute and a last one of two minutes.
\<close>

definition tied_steps :: "WorkflowAnalysis list" where
  "tied_steps =
     [\<lparr>WorkflowAnalysis_Name = ''CI'',
       WorkflowAnalysis_Jobs =
         [\<lparr>JobAnalysis_Name = ''build'', JobAnalysis_Duration = 840000000000,
           JobAnalysis_Labels = [''ubuntu-latest''],
           JobAnalysis_Steps =
         [\<lparr>StepAnalysis_Name = ''s0'', StepAnalysis_Duration = 60000000000\<rparr>,
          \<lparr>StepAnalysis_Name = ''s1'', StepAnalysis_Duration = 60000000000\<rparr>,
          \<lparr>StepAnalysis_Name = ''s2'', StepAnalysis_Duration = 60000000000\<rparr>,
          \<lparr>StepAnalysis_Name = ''s3'', StepAnalysis_Duration = 60000000000\<rparr>,
          \<lparr>StepAnalysis_Name = ''s4'', StepAnalysis_Duration = 60000000000\<rparr>,
          \<lparr>StepAnalysis_Name = ''s5'', StepAnalysis_Duration = 60000000000\<rparr>,
          \<lparr>StepAnalysis_Name = ''s6'', StepAnalysis_Duration = 60000000000\<rparr>,
          \<lparr>StepAnalysis_Name = ''s7'', StepAnalysis_Duration = 60000000000\<rparr>,
          \<lparr>StepAnalysis_Name = ''s8'', StepAnalysis_Duration = 60000000000\<rparr>,
          \<lparr>StepAnalysis_Name = ''s9'', StepAnalysis_Duration = 60000000000\<rparr>,
          \<lparr>StepAnalysis_Name = ''s10'', StepAnalysis_Duration = 60000000000\<rparr>,
          \<lparr>StepAnalysis_Name = ''s11'', StepAnalysis_Duration = 60000000000\<rparr>,
          \<lparr>StepAnalysis_Name = ''s12'', StepAnalysis_Duration = 120000000000\<rparr>]\<rparr>]\<rparr>]"

text \<open>
  The input of the repository's test of the limit: one job of 28 minutes on "ubuntu-latest"
  with seven steps of one to seven minutes.
\<close>

definition seven_steps :: "WorkflowAnalysis list" where
  "seven_steps =
     [\<lparr>WorkflowAnalysis_Name = ''BigWorkflow'',
       WorkflowAnalysis_Jobs =
         [\<lparr>JobAnalysis_Name = ''big-job'', JobAnalysis_Duration = 1680000000000,
           JobAnalysis_Labels = [''ubuntu-latest''],
           JobAnalysis_Steps =
         [\<lparr>StepAnalysis_Name = ''step1'', StepAnalysis_Duration = 60000000000\<rparr>,
          \<lparr>StepAnalysis_Name = ''step2'', StepAnalysis_Duration = 120000000000\<rparr>,
          \<lparr>StepAnalysis_Name = ''step3'', StepAnalysis_Duration = 180000000000\<rparr>,
          \<lparr>StepAnalysis_Name = ''step4'', StepAnalysis_Duration = 240000000000\<rparr>,
          \<lparr>StepAnalysis_Name = ''step5'', StepAnalysis_Duration = 300000000000\<rparr>,
          \<lparr>StepAnalysis_Name = ''step6'', StepAnalysis_Duration = 360000000000\<rparr>,
          \<lparr>StepAnalysis_Name = ''step7'', StepAnalysis_Duration = 420000000000\<rparr>]\<rparr>]\<rparr>]"

section \<open>Narrative report\<close>

record StepCost =
  StepCost_Name :: string
  StepCost_Min :: real

record WasteItem =
  Waste_Type :: string
  Waste_Detail :: string
  Waste_Cost :: real

record Report =
  TotalMinutes :: real
  Report_TotalCost :: real
  MonthlyCost :: real
  ByWorkflow :: "string \<rightharpoonup> real"
  Report_TopSteps :: "StepCost list"
  Waste :: "WasteItem list"
  Suggestions :: "string list"

text \<open>The loop over the steps of one job, on the report and \<^verbatim>\<open>stepAgg\<close>.\<close>

fun Analyze_steps ::
  "real \<Rightarrow> Step list \<Rightarrow> Report \<times> (string \<rightharpoonup> real) \<Rightarrow> Report \<times> (string \<rightharpoonup> real)" where
  "Analyze_steps rate [] (r, stepAgg) = (r, stepAgg)"
| "Analyze_steps rate (s # ss) (r, stepAgg) =
     (let sd = Minutes (Sub (Step_CompletedAt s) (Step_StartedAt s)) in
      if sd \<le> 0 then Analyze_steps rate ss (r, stepAgg)
      else
        let stepAgg = add_at stepAgg (Step_Name s) sd;
            sn = ToLower (Step_Name s);
            r = (if Contains sn ''cache'' \<and> Step_Conclusion s = ''failure''
                 then r\<lparr>Waste := Waste r @
                        [\<lparr>Waste_Type = ''cache-miss'', Waste_Detail = Step_Name s,
                          Waste_Cost = sd * rate\<rparr>]\<rparr>
                 else r);
            hasInstall = (Contains sn ''install'' \<or> Contains sn ''npm'' \<or> Contains sn ''pip'');
            r = (if sd > 3 \<and> hasInstall
                 then r\<lparr>Waste := Waste r @
                        [\<lparr>Waste_Type = ''slow-deps'',
                          Waste_Detail = Step_Name s @ '' ('' @ fmt_f 1 sd @ ''m)'',
                          Waste_Cost = sd * rate * 0.5\<rparr>]\<rparr>
                 else r)
        in Analyze_steps rate ss (r, stepAgg))"

text \<open>The loop over the jobs, on the report, \<^verbatim>\<open>stepAgg\<close> and \<^verbatim>\<open>hasMac\<close>.\<close>

fun Analyze_jobs ::
  "Job list \<Rightarrow> Report \<times> (string \<rightharpoonup> real) \<times> bool \<Rightarrow> Report \<times> (string \<rightharpoonup> real) \<times> bool" where
  "Analyze_jobs [] (r, stepAgg, hasMac) = (r, stepAgg, hasMac)"
| "Analyze_jobs (j # js) (r, stepAgg, hasMac) =
     (let rate = RunnerRate (Job_Labels j);
          dur = Minutes (Sub (Job_CompletedAt j) (Job_StartedAt j))
      in
      if dur \<le> 0 then Analyze_jobs js (r, stepAgg, hasMac)
      else
        let cost = dur * rate;
            r = r\<lparr>TotalMinutes := TotalMinutes r + dur,
                   Report_TotalCost := Report_TotalCost r + cost,
                   ByWorkflow := add_at (ByWorkflow r) (Job_Workflow j) cost\<rparr>;
            hasMac = (if rate = 0.08 then True else hasMac);
            r = (if Job_Conclusion j = ''failure''
                 then r\<lparr>Waste := Waste r @
                        [\<lparr>Waste_Type = ''retry'', Waste_Detail = ''Failed: '' @ Job_Name j,
                          Waste_Cost = cost\<rparr>]\<rparr>
                 else r)
        in
        case Analyze_steps rate (Job_Steps j) (r, stepAgg) of
          (r, stepAgg) \<Rightarrow> Analyze_jobs js (r, stepAgg, hasMac))"

definition Report_empty :: Report where
  "Report_empty =
     \<lparr>TotalMinutes = 0, Report_TotalCost = 0, MonthlyCost = 0, ByWorkflow = Map.empty,
      Report_TopSteps = [], Waste = [], Suggestions = []\<rparr>"

text \<open>\<^verbatim>\<open>stepAgg\<close> as the loop over the jobs leaves it.\<close>

definition Analyze_stepAgg :: "Job list \<Rightarrow> (string \<rightharpoonup> real)" where
  "Analyze_stepAgg jobs = fst (snd (Analyze_jobs jobs (Report_empty, Map.empty, False)))"

text \<open>The \<^verbatim>\<open>range\<close> over \<^verbatim>\<open>stepAgg\<close>, visiting the keys in the order \<open>ks\<close>.\<close>

fun Analyze_range :: "(string \<rightharpoonup> real) \<Rightarrow> string list \<Rightarrow> StepCost list \<Rightarrow> StepCost list" where
  "Analyze_range stepAgg [] topSteps = topSteps"
| "Analyze_range stepAgg (n # ks) topSteps =
     (case stepAgg n of
        None \<Rightarrow> Analyze_range stepAgg ks topSteps
      | Some m \<Rightarrow> Analyze_range stepAgg ks (topSteps @ [\<lparr>StepCost_Name = n, StepCost_Min = m\<rparr>]))"

fun Analyze_wasteSum :: "WasteItem list \<Rightarrow> real \<Rightarrow> real" where
  "Analyze_wasteSum [] wasteSum = wasteSum"
| "Analyze_wasteSum (w # ws) wasteSum = Analyze_wasteSum ws (wasteSum + Waste_Cost w)"

text \<open>The bytes that stand between the two halves of the suggestions in the source.\<close>

definition dash_bytes :: string where
  "dash_bytes = [CHR 0xC3, CHR 0xA2, CHR 0xE2, CHR 0x82, CHR 0xAC, CHR 0xE2, CHR 0x80, CHR 0x9D]"

fun Analyze_topSuggestions :: "StepCost list \<Rightarrow> string list \<Rightarrow> string list" where
  "Analyze_topSuggestions [] suggestions = suggestions"
| "Analyze_topSuggestions (s # ss) suggestions =
     (if StepCost_Min s > 30
      then Analyze_topSuggestions ss
             (suggestions @
              [apostrophe @ StepCost_Name s @ apostrophe @ '' used '' @ fmt_f 0 (StepCost_Min s) @
               ''m '' @ dash_bytes @ '' cache or parallelize''])
      else Analyze_topSuggestions ss suggestions)"

definition Analyze ::
  "string list \<Rightarrow> ((StepCost \<Rightarrow> StepCost \<Rightarrow> bool) \<Rightarrow> StepCost list \<Rightarrow> StepCost list) \<Rightarrow>
   Job list \<Rightarrow> int \<Rightarrow> Report" where
  "Analyze ks srt jobs days =
     (case Analyze_jobs jobs (Report_empty, Map.empty, False) of
        (r, stepAgg, hasMac) \<Rightarrow>
          let r = r\<lparr>Report_TopSteps := Analyze_range stepAgg ks (Report_TopSteps r)\<rparr>;
              r = r\<lparr>Report_TopSteps :=
                       srt (\<lambda>a b. StepCost_Min a > StepCost_Min b) (Report_TopSteps r)\<rparr>;
              r = (if length (Report_TopSteps r) > 10
                   then r\<lparr>Report_TopSteps := take 10 (Report_TopSteps r)\<rparr> else r);
              wasteSum = Analyze_wasteSum (Waste r) 0.0;
              r = (if wasteSum > 0
                   then r\<lparr>Suggestions := Suggestions r @
                          [''Fix '' @ fmt_d (int (length (Waste r))) @ '' issues to save ~$'' @
                           fmt_f 2 wasteSum @ ''/week'']\<rparr>
                   else r);
              r = (if hasMac
                   then r\<lparr>Suggestions := Suggestions r @
                          [''macOS runners cost 10x Linux '' @ dash_bytes @
                           '' switch where possible'']\<rparr>
                   else r);
              r = r\<lparr>Suggestions := Analyze_topSuggestions (Report_TopSteps r) (Suggestions r)\<rparr>;
              r = (if days > 0
                   then r\<lparr>MonthlyCost := Report_TotalCost r / real_of_int days * 30\<rparr> else r)
          in r)"

section \<open>The cost aggregator with float64 rounding\<close>

text \<open>
  The definitions above compute with exact numbers. Where the rounding of \<^verbatim>\<open>float64\<close>
  matters, the aggregator is modelled once more with every float64 operation of the source
  written as the exact operation followed by a rounding function \<open>rnd\<close>, each operation
  rounding on its own: a constant \<open>c\<close> is \<open>rnd c\<close>, \<^verbatim>\<open>float64(n)\<close> is \<open>rnd (of_int n)\<close>,
  \<^verbatim>\<open>a + b\<close> is \<open>rnd (a + b)\<close>, and so on. With the identity for \<open>rnd\<close> this is
  \<open>CalculateCost\<close> again.

  \<open>rounds rnd u\<close> says that \<open>rnd\<close> has a relative error of at most \<open>u\<close>.
\<close>

definition rounds :: "(real \<Rightarrow> real) \<Rightarrow> real \<Rightarrow> bool" where
  "rounds rnd u = (0 \<le> u \<and> u < 1 \<and> (\<forall>x. \<bar>rnd x - x\<bar> \<le> u * \<bar>x\<bar>))"

text \<open>
  Rounding to the nearest number with a significand of 53 bits, ties to the even
  significand: the rounding of IEEE 754 binary64 for every number in its normal range. The
  exponent is not bounded here, so overflow and subnormal numbers are not modelled.
\<close>

definition binary64 :: "real \<Rightarrow> real" where
  "binary64 x =
     (if x = 0 then 0
      else
        let e = \<lfloor>log 2 \<bar>x\<bar>\<rfloor>;
            ulp = 2 powr (real_of_int e - 52)
        in real_of_int (round_half_even (x / ulp)) * ulp)"

text \<open>Go's \<^verbatim>\<open>/\<close> and \<^verbatim>\<open>%\<close> on integers, which truncate towards zero (for a positive divisor).\<close>

definition quo :: "int \<Rightarrow> int \<Rightarrow> int" where
  "quo a b = (if a < 0 then - ((- a) div b) else a div b)"

definition remainder :: "int \<Rightarrow> int \<Rightarrow> int" where
  "remainder a b = a - b * quo a b"

text \<open>
  \<^verbatim>\<open>d.Minutes()\<close> as the library computes it: the whole minutes plus the remaining
  nanoseconds over \<^verbatim>\<open>60*1e9\<close>.
\<close>

definition Minutes_rnd :: "(real \<Rightarrow> real) \<Rightarrow> Duration \<Rightarrow> real" where
  "Minutes_rnd rnd d =
     (let mins = quo d 60000000000;
          nsec = remainder d 60000000000
      in rnd (rnd (real_of_int mins) + rnd (rnd (real_of_int nsec) / 60000000000)))"

text \<open>\<^verbatim>\<open>m[k] += v\<close> in float64.\<close>

definition add_at_rnd ::
  "(real \<Rightarrow> real) \<Rightarrow> ('k \<rightharpoonup> real) \<Rightarrow> 'k \<Rightarrow> real \<Rightarrow> ('k \<rightharpoonup> real)" where
  "add_at_rnd rnd m k v = m(k \<mapsto> rnd ((case m k of None \<Rightarrow> 0 | Some x \<Rightarrow> x) + v))"

fun CalculateCost_rnd_steps ::
  "(real \<Rightarrow> real) \<Rightarrow> string \<Rightarrow> string \<Rightarrow> real \<Rightarrow> StepAnalysis list \<Rightarrow> StepCostEntry list \<Rightarrow>
   StepCostEntry list" where
  "CalculateCost_rnd_steps rnd wfName jobName rate [] allSteps = allSteps"
| "CalculateCost_rnd_steps rnd wfName jobName rate (step # steps) allSteps =
     (let stepMinutes = Minutes_rnd rnd (StepAnalysis_Duration step) in
      if stepMinutes \<le> 0 then CalculateCost_rnd_steps rnd wfName jobName rate steps allSteps
      else
        let stepCost = rnd (stepMinutes * rate);
            entry = \<lparr>Entry_Workflow = wfName, Entry_Job = jobName,
                     Entry_Step = StepAnalysis_Name step, Entry_Cost = stepCost,
                     Entry_Minutes = stepMinutes\<rparr>
        in CalculateCost_rnd_steps rnd wfName jobName rate steps (allSteps @ [entry]))"

fun CalculateCost_rnd_jobs ::
  "(real \<Rightarrow> real) \<Rightarrow> string \<Rightarrow> string \<Rightarrow> JobAnalysis list \<Rightarrow>
   (string \<rightharpoonup> real) \<times> real \<times> StepCostEntry list \<Rightarrow>
   (string \<rightharpoonup> real) \<times> real \<times> StepCostEntry list" where
  "CalculateCost_rnd_jobs rnd defaultOS wfName [] (perJob, wfCost, allSteps) =
     (perJob, wfCost, allSteps)"
| "CalculateCost_rnd_jobs rnd defaultOS wfName (job # jobs) (perJob, wfCost, allSteps) =
     (let rate = rnd (resolveRate (JobAnalysis_Labels job) defaultOS);
          jobMinutes = Minutes_rnd rnd (JobAnalysis_Duration job)
      in
      if jobMinutes \<le> 0
      then CalculateCost_rnd_jobs rnd defaultOS wfName jobs (perJob, wfCost, allSteps)
      else
        let jobCost = rnd (jobMinutes * rate) in
        CalculateCost_rnd_jobs rnd defaultOS wfName jobs
          (add_at_rnd rnd perJob (JobAnalysis_Name job) jobCost,
           rnd (wfCost + jobCost),
           CalculateCost_rnd_steps rnd wfName (JobAnalysis_Name job) rate (JobAnalysis_Steps job)
             allSteps))"

fun CalculateCost_rnd_workflows ::
  "(real \<Rightarrow> real) \<Rightarrow> string \<Rightarrow> WorkflowAnalysis list \<Rightarrow> CostReport \<times> StepCostEntry list \<Rightarrow>
   CostReport \<times> StepCostEntry list" where
  "CalculateCost_rnd_workflows rnd defaultOS [] (report, allSteps) = (report, allSteps)"
| "CalculateCost_rnd_workflows rnd defaultOS (wflow # wflows) (report, allSteps) =
     (case CalculateCost_rnd_jobs rnd defaultOS (WorkflowAnalysis_Name wflow)
             (WorkflowAnalysis_Jobs wflow) (PerJob report, 0, allSteps) of
        (perJob, wfCost, allSteps') \<Rightarrow>
          CalculateCost_rnd_workflows rnd defaultOS wflows
            (report\<lparr>PerJob := perJob,
                    PerWorkflow :=
                      add_at_rnd rnd (PerWorkflow report) (WorkflowAnalysis_Name wflow) wfCost,
                    TotalCost := rnd (TotalCost report + wfCost)\<rparr>,
             allSteps'))"

definition CalculateCost_rnd ::
  "(real \<Rightarrow> real) \<Rightarrow>
   ((StepCostEntry \<Rightarrow> StepCostEntry \<Rightarrow> bool) \<Rightarrow> StepCostEntry list \<Rightarrow> StepCostEntry list) \<Rightarrow>
   WorkflowAnalysis list \<Rightarrow> string \<Rightarrow> int \<Rightarrow> CostReport" where
  "CalculateCost_rnd rnd srt analyses defaultOS observationDays =
     (let observationDays = (if observationDays \<le> 0 then 1 else observationDays);
          report = \<lparr>PerStep = [], PerJob = Map.empty, PerWorkflow = Map.empty, TotalCost = 0,
                    ProjectedCost30 = 0, TopSteps = []\<rparr>
      in
      case CalculateCost_rnd_workflows rnd defaultOS analyses (report, []) of
        (report, allSteps) \<Rightarrow>
          let report = report\<lparr>PerStep := allSteps\<rparr>;
              sortedSteps = srt (\<lambda>a b. Entry_Cost a > Entry_Cost b) allSteps;
              topN = (if length sortedSteps < 5 then length sortedSteps else 5);
              report = report\<lparr>TopSteps := take topN sortedSteps\<rparr>;
              dailyCost = rnd (TotalCost report / rnd (real_of_int observationDays))
          in report\<lparr>ProjectedCost30 := rnd (dailyCost * 30)\<rparr>)"

text \<open>
  The words of the relation between the three totals: the jobs the loop does not skip,
  the cost it computes for one of them, the sum of the values of a map, and a value that
  lies within \<open>n\<close> roundings of an exact one.
\<close>

definition included :: "(real \<Rightarrow> real) \<Rightarrow> JobAnalysis \<Rightarrow> bool" where
  "included rnd job = (0 < Minutes_rnd rnd (JobAnalysis_Duration job))"

definition jobCost_of :: "(real \<Rightarrow> real) \<Rightarrow> string \<Rightarrow> JobAnalysis \<Rightarrow> real" where
  "jobCost_of rnd defaultOS job =
     rnd (Minutes_rnd rnd (JobAnalysis_Duration job) *
          rnd (resolveRate (JobAnalysis_Labels job) defaultOS))"

definition jobCosts :: "(real \<Rightarrow> real) \<Rightarrow> string \<Rightarrow> WorkflowAnalysis list \<Rightarrow> real list" where
  "jobCosts rnd defaultOS analyses =
     map (jobCost_of rnd defaultOS)
       (filter (included rnd) (concat (map WorkflowAnalysis_Jobs analyses)))"

definition sum_values :: "('k \<rightharpoonup> real) \<Rightarrow> real" where
  "sum_values m = (\<Sum>k\<in>dom m. the (m k))"

definition within_roundings :: "real \<Rightarrow> nat \<Rightarrow> real \<Rightarrow> real \<Rightarrow> bool" where
  "within_roundings u n x v = ((1 - u) ^ n * x \<le> v \<and> v \<le> (1 + u) ^ n * x)"

text \<open>
  An input for the three totals: the workflow "CI" with a job "build" of one minute on
  "ubuntu-latest", the workflow "Nightly" with a job "ios" of one minute on "macos-13", and
  a second run of "CI" whose job "build" took two minutes.
\<close>

definition three_runs :: "WorkflowAnalysis list" where
  "three_runs =
     [\<lparr>WorkflowAnalysis_Name = ''CI'',
       WorkflowAnalysis_Jobs =
         [\<lparr>JobAnalysis_Name = ''build'', JobAnalysis_Duration = 60000000000,
           JobAnalysis_Labels = [''ubuntu-latest''], JobAnalysis_Steps = []\<rparr>]\<rparr>,
      \<lparr>WorkflowAnalysis_Name = ''Nightly'',
       WorkflowAnalysis_Jobs =
         [\<lparr>JobAnalysis_Name = ''ios'', JobAnalysis_Duration = 60000000000,
           JobAnalysis_Labels = [''macos-13''], JobAnalysis_Steps = []\<rparr>]\<rparr>,
      \<lparr>WorkflowAnalysis_Name = ''CI'',
       WorkflowAnalysis_Jobs =
         [\<lparr>JobAnalysis_Name = ''build'', JobAnalysis_Duration = 120000000000,
           JobAnalysis_Labels = [''ubuntu-latest''], JobAnalysis_Steps = []\<rparr>]\<rparr>]"

section \<open>Facts about the library functions\<close>

lemma HasPrefix_iff: "HasPrefix s p \<longleftrightarrow> (\<exists>ss. s = p @ ss)"
  by (induction s p rule: HasPrefix.induct) auto

text \<open>\<open>Contains\<close> is the search for a contiguous block.\<close>

lemma Contains_iff: "Contains s sub \<longleftrightarrow> (\<exists>ps ss. s = ps @ sub @ ss)"
proof (induction s)
  case Nil
  then show ?case by auto
next
  case (Cons c s)
  show ?case
  proof
    assume "Contains (c # s) sub"
    then consider "HasPrefix (c # s) sub" | "Contains s sub" by auto
    then show "\<exists>ps ss. c # s = ps @ sub @ ss"
    proof cases
      case 1
      then obtain ss where "c # s = sub @ ss" by (auto simp: HasPrefix_iff)
      then have "c # s = [] @ sub @ ss" by simp
      then show ?thesis by blast
    next
      case 2
      then obtain ps ss where "s = ps @ sub @ ss" using Cons.IH by auto
      then have "c # s = (c # ps) @ sub @ ss" by simp
      then show ?thesis by blast
    qed
  next
    assume "\<exists>ps ss. c # s = ps @ sub @ ss"
    then obtain ps ss where eq: "c # s = ps @ sub @ ss" by blast
    show "Contains (c # s) sub"
    proof (cases ps)
      case Nil
      then have "HasPrefix (c # s) sub" using eq by (auto simp: HasPrefix_iff)
      then show ?thesis by simp
    next
      case (Cons p ps')
      then have "s = ps' @ sub @ ss" using eq by simp
      then have "Contains s sub" using Cons.IH by blast
      then show ?thesis by simp
    qed
  qed
qed

lemmas lower_simps = ToLower_def ToLower_char_def

lemmas rate_defs = RateLinux_def RateWindows_def RateMacOS_def

section \<open>Rate resolution\<close>

lemma RunnerRate_find:
  "RunnerRate labels =
     (case find (\<lambda>l. Contains (ToLower l) ''macos'' \<or> Contains (ToLower l) ''windows'') labels of
        None \<Rightarrow> RateLinux
      | Some l \<Rightarrow> if Contains (ToLower l) ''macos'' then RateMacOS else RateWindows)"
  by (induction labels) (simp_all add: rate_defs Let_def)

text \<open>
  C4. \<open>RunnerRate\<close> goes through the labels in their order and stops at the first one whose
  lowercased text contains "macos" or "windows": "macos" gives the high-tier rate,
  "windows" the mid-tier rate, and no such label (the empty list too) gives the low-tier
  rate. \<open>resolveRate\<close> is \<open>RunnerRate\<close> on a non-empty label list and, on the empty one,
  the same rule applied to the default OS. The listed label lists resolve as the claim says.
\<close>

theorem rate_resolution:
  "RunnerRate labels =
     (case find (\<lambda>l. Contains (ToLower l) ''macos'' \<or> Contains (ToLower l) ''windows'') labels of
        None \<Rightarrow> RateLinux
      | Some l \<Rightarrow> if Contains (ToLower l) ''macos'' then RateMacOS else RateWindows)
   \<and> resolveRate labels defaultOS = (if labels = [] then rateForOS defaultOS else RunnerRate labels)
   \<and> rateForOS defaultOS = RunnerRate [defaultOS]
   \<and> RunnerRate [''ubuntu-latest''] = RateLinux
   \<and> RunnerRate [''windows-latest''] = RateWindows
   \<and> RunnerRate [''macos-latest''] = RateMacOS
   \<and> RunnerRate [''macos-13''] = RateMacOS
   \<and> RunnerRate [''self-hosted'', ''linux''] = RateLinux
   \<and> RunnerRate [] = RateLinux
   \<and> resolveRate [] ''macos'' = RateMacOS"
proof -
  have a: "resolveRate labels defaultOS =
      (if labels = [] then rateForOS defaultOS else RunnerRate labels)"
    by (simp add: resolveRate_def)
  have b: "rateForOS defaultOS = RunnerRate [defaultOS]"
    by (simp add: rateForOS_def rate_defs Let_def)
  have c: "RunnerRate [''ubuntu-latest''] = RateLinux"
    "RunnerRate [''windows-latest''] = RateWindows"
    "RunnerRate [''macos-latest''] = RateMacOS" "RunnerRate [''macos-13''] = RateMacOS"
    "RunnerRate [''self-hosted'', ''linux''] = RateLinux" "RunnerRate [] = RateLinux"
    by (simp_all add: lower_simps rate_defs)
  have d: "resolveRate [] ''macos'' = RateMacOS"
    by (simp add: resolveRate_def rateForOS_def lower_simps)
  show ?thesis using RunnerRate_find a b c d by blast
qed

section \<open>The detectors as filters\<close>

lemma matched_iff: "matched sn kws \<longleftrightarrow> (\<exists>kw \<in> set kws. Contains sn kw)"
  by (induction kws) auto

lemma isMac_iff: "isMac labels \<longleftrightarrow> (\<exists>l \<in> set labels. Contains (ToLower l) ''macos'')"
  by (induction labels) auto

lemma DetectCacheMiss_steps_eq:
  "DetectCacheMiss_steps days rate ss recs =
     recs @ map (\<lambda>s. \<lparr>RuleID = ''cache-miss'', Severity = ''high'',
                       EstimatedMonthlySavings =
                         0.7 * Minutes (Sub (Step_CompletedAt s) (Step_StartedAt s)) * rate *
                         monthlyScale days,
                       Fix = cacheMiss_Fix (Step_Name s)
                               (Seconds (Sub (Step_CompletedAt s) (Step_StartedAt s)))\<rparr>)
              (filter (\<lambda>s. matched (ToLower (Step_Name s)) cacheMiss_keywords \<and>
                           60 < Seconds (Sub (Step_CompletedAt s) (Step_StartedAt s))) ss)"
  by (induction ss arbitrary: recs) (simp_all add: Let_def Seconds_def Minutes_def)

lemma DetectCacheMiss_jobs_eq:
  "DetectCacheMiss_jobs days js recs =
     recs @ concat (map (\<lambda>j. DetectCacheMiss_steps days (RunnerRate (Job_Labels j))
                                 (Job_Steps j) []) js)"
proof (induction js arbitrary: recs)
  case Nil
  then show ?case by simp
next
  case (Cons j js)
  have "DetectCacheMiss_steps days (RunnerRate (Job_Labels j)) (Job_Steps j) recs =
        recs @ DetectCacheMiss_steps days (RunnerRate (Job_Labels j)) (Job_Steps j) []"
    by (simp add: DetectCacheMiss_steps_eq [of _ _ _ recs] DetectCacheMiss_steps_eq [of _ _ _ "[]"])
  then show ?case by (simp add: Cons.IH)
qed

lemma cacheMiss_Fix_nonempty: "cacheMiss_Fix name durSec \<noteq> []"
  by (simp add: cacheMiss_Fix_def)

lemma DetectExpensiveOS_jobs_eq:
  "DetectExpensiveOS_jobs days js recs =
     recs @ map (\<lambda>j. \<lparr>RuleID = ''expensive-os'', Severity = ''high'',
                       EstimatedMonthlySavings =
                         Minutes (Sub (Job_CompletedAt j) (Job_StartedAt j)) * (0.08 - 0.008) *
                         monthlyScale days,
                       Fix = expensiveOS_Fix (Job_Name j)
                               (Minutes (Sub (Job_CompletedAt j) (Job_StartedAt j)))\<rparr>)
              (filter (\<lambda>j. isMac (Job_Labels j) \<and>
                           5 < Minutes (Sub (Job_CompletedAt j) (Job_StartedAt j))) js)"
  by (induction js arbitrary: recs) (simp_all add: Let_def)

lemma matched_cacheMiss_keywords:
  "matched sn cacheMiss_keywords \<longleftrightarrow>
     (Contains sn ''install'' \<or> Contains sn ''npm ci'' \<or> Contains sn ''pip install'' \<or>
      Contains sn ''go mod download'')"
  by (auto simp: cacheMiss_keywords_def)

section \<open>The cache-miss detector\<close>

text \<open>
  C7. \<open>DetectCacheMiss\<close> returns, in the order of the jobs and of their steps, one
  recommendation for exactly the steps whose lowercased name contains "install", "npm ci",
  "pip install" or "go mod download" and that took more than 60 seconds. Its rule id is
  "cache-miss", its severity "high", its text is not empty, and its savings are 0.7 times
  the step's minutes times the job's rate times \<open>monthlyScale\<close> of the days (30 / days for
  a positive number of days). An "npm install" step of 90 seconds in a job on
  "ubuntu-latest" over 7 days gives one recommendation with positive savings; the same step
  at 30 seconds gives none.
\<close>

theorem DetectCacheMiss_exact:
  "DetectCacheMiss cr =
     concat (map (\<lambda>j.
       map (\<lambda>s. \<lparr>RuleID = ''cache-miss'', Severity = ''high'',
                  EstimatedMonthlySavings =
                    0.7 * Minutes (Sub (Step_CompletedAt s) (Step_StartedAt s)) *
                    RunnerRate (Job_Labels j) * monthlyScale (Days cr),
                  Fix = cacheMiss_Fix (Step_Name s)
                          (Seconds (Sub (Step_CompletedAt s) (Step_StartedAt s)))\<rparr>)
           (filter (\<lambda>s. (Contains (ToLower (Step_Name s)) ''install'' \<or>
                         Contains (ToLower (Step_Name s)) ''npm ci'' \<or>
                         Contains (ToLower (Step_Name s)) ''pip install'' \<or>
                         Contains (ToLower (Step_Name s)) ''go mod download'') \<and>
                        60 < Seconds (Sub (Step_CompletedAt s) (Step_StartedAt s)))
              (Job_Steps j)))
       (Jobs cr))
   \<and> monthlyScale (Days cr) = (if Days cr \<le> 0 then 1 else 30 / real_of_int (Days cr))
   \<and> cacheMiss_Fix name durSec \<noteq> []
   \<and> DetectCacheMiss
        \<lparr>Jobs = [\<lparr>Job_Name = ''build'', Job_Workflow = ''CI'', Job_Conclusion = ''success'',
                  Job_Labels = [''ubuntu-latest''], Job_StartedAt = 0,
                  Job_CompletedAt = 300000000000,
                  Job_Steps = [\<lparr>Step_Name = ''npm install'', Step_Conclusion = ''success'',
                                Step_StartedAt = 0, Step_CompletedAt = 90000000000\<rparr>]\<rparr>],
         Days = 7\<rparr> =
       [\<lparr>RuleID = ''cache-miss'', Severity = ''high'',
         EstimatedMonthlySavings = 0.7 * 1.5 * RateLinux * (30 / 7),
         Fix = cacheMiss_Fix ''npm install'' 90\<rparr>]
   \<and> 0 < 0.7 * 1.5 * RateLinux * (30 / 7)
   \<and> DetectCacheMiss
        \<lparr>Jobs = [\<lparr>Job_Name = ''build'', Job_Workflow = ''CI'', Job_Conclusion = ''success'',
                  Job_Labels = [''ubuntu-latest''], Job_StartedAt = 0,
                  Job_CompletedAt = 300000000000,
                  Job_Steps = [\<lparr>Step_Name = ''npm install'', Step_Conclusion = ''success'',
                                Step_StartedAt = 0, Step_CompletedAt = 30000000000\<rparr>]\<rparr>],
         Days = 7\<rparr> = []"
proof -
  have gen: "DetectCacheMiss cr =
     concat (map (\<lambda>j.
       map (\<lambda>s. \<lparr>RuleID = ''cache-miss'', Severity = ''high'',
                  EstimatedMonthlySavings =
                    0.7 * Minutes (Sub (Step_CompletedAt s) (Step_StartedAt s)) *
                    RunnerRate (Job_Labels j) * monthlyScale (Days cr),
                  Fix = cacheMiss_Fix (Step_Name s)
                          (Seconds (Sub (Step_CompletedAt s) (Step_StartedAt s)))\<rparr>)
           (filter (\<lambda>s. (Contains (ToLower (Step_Name s)) ''install'' \<or>
                         Contains (ToLower (Step_Name s)) ''npm ci'' \<or>
                         Contains (ToLower (Step_Name s)) ''pip install'' \<or>
                         Contains (ToLower (Step_Name s)) ''go mod download'') \<and>
                        60 < Seconds (Sub (Step_CompletedAt s) (Step_StartedAt s)))
              (Job_Steps j)))
       (Jobs cr))"
    by (simp only: DetectCacheMiss_def DetectCacheMiss_jobs_eq DetectCacheMiss_steps_eq
        matched_cacheMiss_keywords append_Nil)
  have ex90: "DetectCacheMiss
        \<lparr>Jobs = [\<lparr>Job_Name = ''build'', Job_Workflow = ''CI'', Job_Conclusion = ''success'',
                  Job_Labels = [''ubuntu-latest''], Job_StartedAt = 0,
                  Job_CompletedAt = 300000000000,
                  Job_Steps = [\<lparr>Step_Name = ''npm install'', Step_Conclusion = ''success'',
                                Step_StartedAt = 0, Step_CompletedAt = 90000000000\<rparr>]\<rparr>],
         Days = 7\<rparr> =
       [\<lparr>RuleID = ''cache-miss'', Severity = ''high'',
         EstimatedMonthlySavings = 0.7 * 1.5 * RateLinux * (30 / 7),
         Fix = cacheMiss_Fix ''npm install'' 90\<rparr>]"
    by (simp add: DetectCacheMiss_def Sub_def minDuration_def maxDuration_def Seconds_def
        Let_def cacheMiss_keywords_def lower_simps monthlyScale_def RateLinux_def)
  have pos: "0 < 0.7 * 1.5 * RateLinux * (30 / 7)"
    by (simp add: RateLinux_def)
  have ex30: "DetectCacheMiss
        \<lparr>Jobs = [\<lparr>Job_Name = ''build'', Job_Workflow = ''CI'', Job_Conclusion = ''success'',
                  Job_Labels = [''ubuntu-latest''], Job_StartedAt = 0,
                  Job_CompletedAt = 300000000000,
                  Job_Steps = [\<lparr>Step_Name = ''npm install'', Step_Conclusion = ''success'',
                                Step_StartedAt = 0, Step_CompletedAt = 30000000000\<rparr>]\<rparr>],
         Days = 7\<rparr> = []"
    by (simp add: DetectCacheMiss_def Sub_def minDuration_def maxDuration_def Seconds_def
        Let_def)
  have scale: "monthlyScale (Days cr) = (if Days cr \<le> 0 then 1 else 30 / real_of_int (Days cr))"
    by (simp add: monthlyScale_def)
  show ?thesis using gen scale cacheMiss_Fix_nonempty ex90 pos ex30 by blast
qed

section \<open>The expensive-OS detector\<close>

text \<open>
  C10. \<open>DetectExpensiveOS\<close> takes a job for a macOS job when any of its labels contains
  "macos" (lowercased), whatever the other labels are, and prices a job of more than five
  minutes at its minutes times the constant 0.08 - 0.008 (the macOS rate less the Linux
  rate) times the monthly scale. A job labelled "windows-latest", "macos-13" is such a job,
  although \<open>RunnerRate\<close> bills it at the Windows rate.
\<close>

theorem DetectExpensiveOS_any_label:
  "isMac labels = (\<exists>l \<in> set labels. Contains (ToLower l) ''macos'')
   \<and> DetectExpensiveOS cr =
       map (\<lambda>j. \<lparr>RuleID = ''expensive-os'', Severity = ''high'',
                  EstimatedMonthlySavings =
                    Minutes (Sub (Job_CompletedAt j) (Job_StartedAt j)) * (0.08 - 0.008) *
                    monthlyScale (Days cr),
                  Fix = expensiveOS_Fix (Job_Name j)
                          (Minutes (Sub (Job_CompletedAt j) (Job_StartedAt j)))\<rparr>)
           (filter (\<lambda>j. isMac (Job_Labels j) \<and>
                        5 < Minutes (Sub (Job_CompletedAt j) (Job_StartedAt j))) (Jobs cr))
   \<and> (0.08 - 0.008 :: real) = RateMacOS - RateLinux
   \<and> isMac [''windows-latest'', ''macos-13'']
   \<and> RunnerRate [''windows-latest'', ''macos-13''] = RateWindows
   \<and> DetectExpensiveOS \<lparr>Jobs = [j\<lparr>Job_Labels := [''windows-latest'', ''macos-13'']\<rparr>], Days = d\<rparr> =
       (if 5 < Minutes (Sub (Job_CompletedAt j) (Job_StartedAt j))
        then [\<lparr>RuleID = ''expensive-os'', Severity = ''high'',
                EstimatedMonthlySavings =
                  Minutes (Sub (Job_CompletedAt j) (Job_StartedAt j)) * (RateMacOS - RateLinux) *
                  monthlyScale d,
                Fix = expensiveOS_Fix (Job_Name j)
                        (Minutes (Sub (Job_CompletedAt j) (Job_StartedAt j)))\<rparr>]
        else [])"
proof -
  have gen: "DetectExpensiveOS cr =
       map (\<lambda>j. \<lparr>RuleID = ''expensive-os'', Severity = ''high'',
                  EstimatedMonthlySavings =
                    Minutes (Sub (Job_CompletedAt j) (Job_StartedAt j)) * (0.08 - 0.008) *
                    monthlyScale (Days cr),
                  Fix = expensiveOS_Fix (Job_Name j)
                          (Minutes (Sub (Job_CompletedAt j) (Job_StartedAt j)))\<rparr>)
           (filter (\<lambda>j. isMac (Job_Labels j) \<and>
                        5 < Minutes (Sub (Job_CompletedAt j) (Job_StartedAt j))) (Jobs cr))" for cr
    by (simp add: DetectExpensiveOS_def DetectExpensiveOS_jobs_eq)
  have gap: "(0.08 - 0.008 :: real) = RateMacOS - RateLinux"
    by (simp add: rate_defs)
  have mac: "isMac [''windows-latest'', ''macos-13'']"
    by (simp add: lower_simps)
  have win: "RunnerRate [''windows-latest'', ''macos-13''] = RateWindows"
    by (simp add: lower_simps rate_defs)
  have one: "DetectExpensiveOS \<lparr>Jobs = [j\<lparr>Job_Labels := [''windows-latest'', ''macos-13'']\<rparr>], Days = d\<rparr> =
       (if 5 < Minutes (Sub (Job_CompletedAt j) (Job_StartedAt j))
        then [\<lparr>RuleID = ''expensive-os'', Severity = ''high'',
                EstimatedMonthlySavings =
                  Minutes (Sub (Job_CompletedAt j) (Job_StartedAt j)) * (RateMacOS - RateLinux) *
                  monthlyScale d,
                Fix = expensiveOS_Fix (Job_Name j)
                        (Minutes (Sub (Job_CompletedAt j) (Job_StartedAt j)))\<rparr>]
        else [])"
    unfolding gap [symmetric] by (simp add: gen lower_simps)
  show ?thesis using isMac_iff gen gap mac win one by blast
qed

section \<open>The loops of the cost aggregator\<close>

lemma dom_add_at: "dom (add_at m k v) = insert k (dom m)"
  by (simp add: add_at_def)

lemma finite_dom_add_at: "finite (dom m) \<Longrightarrow> finite (dom (add_at m k v))"
  by (simp add: dom_add_at)

lemma sum_add_at:
  assumes "finite (dom m)"
  shows "(\<Sum>x\<in>dom (add_at m k v). the (add_at m k v x)) = (\<Sum>x\<in>dom m. the (m x)) + v"
proof -
  let ?m' = "add_at m k v"
  have rest: "(\<Sum>x\<in>dom m - {k}. the (?m' x)) = (\<Sum>x\<in>dom m - {k}. the (m x))"
    by (rule sum.cong) (simp_all add: add_at_def)
  have "(\<Sum>x\<in>dom ?m'. the (?m' x)) = the (?m' k) + (\<Sum>x\<in>dom m - {k}. the (?m' x))"
    using assms by (simp add: dom_add_at sum.insert_remove)
  also have "\<dots> = (case m k of None \<Rightarrow> 0 | Some x \<Rightarrow> x) + v + (\<Sum>x\<in>dom m - {k}. the (m x))"
    by (simp add: rest) (simp add: add_at_def)
  also have "\<dots> = (\<Sum>x\<in>dom m. the (m x)) + v"
  proof (cases "m k")
    case None
    then have "dom m - {k} = dom m" by auto
    then show ?thesis using None by simp
  next
    case (Some a)
    then have "k \<in> dom m" by auto
    then have "(\<Sum>x\<in>dom m. the (m x)) = the (m k) + (\<Sum>x\<in>dom m - {k}. the (m x))"
      using assms by (simp add: sum.remove)
    then show ?thesis using Some by simp
  qed
  finally show ?thesis .
qed

lemma CalculateCost_steps_eq:
  "CalculateCost_steps wfName jobName rate steps allSteps =
     allSteps @ map (\<lambda>step. \<lparr>Entry_Workflow = wfName, Entry_Job = jobName,
                               Entry_Step = StepAnalysis_Name step,
                               Entry_Cost = Minutes (StepAnalysis_Duration step) * rate,
                               Entry_Minutes = Minutes (StepAnalysis_Duration step)\<rparr>)
                  (filter (\<lambda>step. 0 < Minutes (StepAnalysis_Duration step)) steps)"
  by (induction steps arbitrary: allSteps) (simp_all add: Let_def)

lemma CalculateCost_jobs_dom:
  "dom (fst (CalculateCost_jobs defaultOS wfName jobs (perJob, wfCost, allSteps))) =
     dom perJob \<union> JobAnalysis_Name ` {j \<in> set jobs. 0 < Minutes (JobAnalysis_Duration j)}"
  by (induction jobs arbitrary: perJob wfCost allSteps) (auto simp: Let_def dom_add_at)

lemma CalculateCost_jobs_finite:
  "finite (dom perJob) \<Longrightarrow>
   finite (dom (fst (CalculateCost_jobs defaultOS wfName jobs (perJob, wfCost, allSteps))))"
  by (simp add: CalculateCost_jobs_dom)

lemma CalculateCost_jobs_sum:
  "finite (dom perJob) \<Longrightarrow>
   CalculateCost_jobs defaultOS wfName jobs (perJob, wfCost, allSteps) = (perJob', wfCost', allSteps') \<Longrightarrow>
   (\<Sum>x\<in>dom perJob'. the (perJob' x)) - (\<Sum>x\<in>dom perJob. the (perJob x)) = wfCost' - wfCost"
proof (induction jobs arbitrary: perJob wfCost allSteps)
  case Nil
  then show ?case by simp
next
  case (Cons job jobs)
  show ?case
  proof (cases "Minutes (JobAnalysis_Duration job) \<le> 0")
    case True
    then show ?thesis using Cons.IH [OF Cons.prems(1)] Cons.prems(2) by (simp add: Let_def)
  next
    case False
    let ?c = "Minutes (JobAnalysis_Duration job) * resolveRate (JobAnalysis_Labels job) defaultOS"
    let ?pj = "add_at perJob (JobAnalysis_Name job) ?c"
    have fin: "finite (dom ?pj)" using Cons.prems(1) by (rule finite_dom_add_at)
    have run: "CalculateCost_jobs defaultOS wfName jobs
           (?pj, wfCost + ?c,
            CalculateCost_steps wfName (JobAnalysis_Name job)
              (resolveRate (JobAnalysis_Labels job) defaultOS) (JobAnalysis_Steps job) allSteps) =
          (perJob', wfCost', allSteps')"
      using Cons.prems(2) False by (simp add: Let_def)
    have "(\<Sum>x\<in>dom perJob'. the (perJob' x)) - (\<Sum>x\<in>dom ?pj. the (?pj x)) = wfCost' - (wfCost + ?c)"
      by (rule Cons.IH [OF fin run])
    then show ?thesis using sum_add_at [OF Cons.prems(1), of "JobAnalysis_Name job" ?c] by simp
  qed
qed

lemma CalculateCost_workflows_inv:
  "finite (dom (PerJob report)) \<Longrightarrow> finite (dom (PerWorkflow report)) \<Longrightarrow>
   CalculateCost_workflows defaultOS wfs (report, allSteps) = (report', allSteps') \<Longrightarrow>
   finite (dom (PerJob report')) \<and> finite (dom (PerWorkflow report')) \<and>
   (\<Sum>x\<in>dom (PerJob report'). the (PerJob report' x)) - (\<Sum>x\<in>dom (PerJob report). the (PerJob report x)) =
     TotalCost report' - TotalCost report \<and>
   (\<Sum>x\<in>dom (PerWorkflow report'). the (PerWorkflow report' x)) -
     (\<Sum>x\<in>dom (PerWorkflow report). the (PerWorkflow report x)) =
     TotalCost report' - TotalCost report"
proof (induction wfs arbitrary: report allSteps)
  case Nil
  then show ?case by simp
next
  case (Cons w wfs)
  obtain perJob wfCost all1 where
    jobs: "CalculateCost_jobs defaultOS (WorkflowAnalysis_Name w) (WorkflowAnalysis_Jobs w)
             (PerJob report, 0, allSteps) = (perJob, wfCost, all1)"
    by (cases "CalculateCost_jobs defaultOS (WorkflowAnalysis_Name w) (WorkflowAnalysis_Jobs w)
             (PerJob report, 0, allSteps)") auto
  let ?r = "report\<lparr>PerJob := perJob,
                    PerWorkflow := add_at (PerWorkflow report) (WorkflowAnalysis_Name w) wfCost,
                    TotalCost := TotalCost report + wfCost\<rparr>"
  have run: "CalculateCost_workflows defaultOS wfs (?r, all1) = (report', allSteps')"
    using Cons.prems(3) jobs by simp
  have finJ: "finite (dom (PerJob ?r))"
    using CalculateCost_jobs_finite [OF Cons.prems(1), of defaultOS "WorkflowAnalysis_Name w"
        "WorkflowAnalysis_Jobs w" 0 allSteps] jobs by simp
  have finW: "finite (dom (PerWorkflow ?r))"
    using Cons.prems(2) by (simp add: dom_add_at)
  have sumJ: "(\<Sum>x\<in>dom perJob. the (perJob x)) - (\<Sum>x\<in>dom (PerJob report). the (PerJob report x)) = wfCost"
    using CalculateCost_jobs_sum [OF Cons.prems(1) jobs] by simp
  have sumW: "(\<Sum>x\<in>dom (PerWorkflow ?r). the (PerWorkflow ?r x)) =
      (\<Sum>x\<in>dom (PerWorkflow report). the (PerWorkflow report x)) + wfCost"
    using sum_add_at [OF Cons.prems(2)] by simp
  from Cons.IH [OF finJ finW run] show ?case using sumJ sumW by simp
qed

lemma CalculateCost_workflows_dom:
  "CalculateCost_workflows defaultOS wfs (report, allSteps) = (report', allSteps') \<Longrightarrow>
   dom (PerWorkflow report') = dom (PerWorkflow report) \<union> WorkflowAnalysis_Name ` set wfs \<and>
   dom (PerJob report') = dom (PerJob report) \<union>
     JobAnalysis_Name ` {j \<in> \<Union> (set (map (\<lambda>w. set (WorkflowAnalysis_Jobs w)) wfs)).
                          0 < Minutes (JobAnalysis_Duration j)}"
proof (induction wfs arbitrary: report allSteps)
  case Nil
  then show ?case by simp
next
  case (Cons w wfs)
  obtain perJob wfCost all1 where
    jobs: "CalculateCost_jobs defaultOS (WorkflowAnalysis_Name w) (WorkflowAnalysis_Jobs w)
             (PerJob report, 0, allSteps) = (perJob, wfCost, all1)"
    by (cases "CalculateCost_jobs defaultOS (WorkflowAnalysis_Name w) (WorkflowAnalysis_Jobs w)
             (PerJob report, 0, allSteps)") auto
  let ?r = "report\<lparr>PerJob := perJob,
                    PerWorkflow := add_at (PerWorkflow report) (WorkflowAnalysis_Name w) wfCost,
                    TotalCost := TotalCost report + wfCost\<rparr>"
  have run: "CalculateCost_workflows defaultOS wfs (?r, all1) = (report', allSteps')"
    using Cons.prems jobs by simp
  have domJ: "dom perJob = dom (PerJob report) \<union>
      JobAnalysis_Name ` {j \<in> set (WorkflowAnalysis_Jobs w). 0 < Minutes (JobAnalysis_Duration j)}"
    using CalculateCost_jobs_dom [of defaultOS "WorkflowAnalysis_Name w" "WorkflowAnalysis_Jobs w"
        "PerJob report" 0 allSteps] jobs by simp
  from Cons.IH [OF run] show ?case using domJ by (auto simp: dom_add_at)
qed

section \<open>The cost report\<close>

lemma Minutes_pos_iff: "0 < Minutes d \<longleftrightarrow> 0 < d"
  by (simp add: Minutes_def)

lemma Minutes_le_iff: "Minutes d \<le> 0 \<longleftrightarrow> d \<le> 0"
  by (simp add: Minutes_def)

lemma CalculateCost_fields:
  assumes "CalculateCost_workflows defaultOS analyses
     (\<lparr>PerStep = [], PerJob = Map.empty, PerWorkflow = Map.empty, TotalCost = 0,
       ProjectedCost30 = 0, TopSteps = []\<rparr>, []) = (report, allSteps)"
  shows "PerJob (CalculateCost srt analyses defaultOS d) = PerJob report"
    and "PerWorkflow (CalculateCost srt analyses defaultOS d) = PerWorkflow report"
    and "TotalCost (CalculateCost srt analyses defaultOS d) = TotalCost report"
    and "PerStep (CalculateCost srt analyses defaultOS d) = allSteps"
    and "TopSteps (CalculateCost srt analyses defaultOS d) =
           take (min 5 (length (srt (\<lambda>a b. Entry_Cost a > Entry_Cost b) allSteps)))
             (srt (\<lambda>a b. Entry_Cost a > Entry_Cost b) allSteps)"
    and "ProjectedCost30 (CalculateCost srt analyses defaultOS d) =
           TotalCost report / real_of_int (max d 1) * 30"
  using assms by (simp_all add: CalculateCost_def Let_def min_def max_def)

lemmas eval_simps = CalculateCost_def Let_def Minutes_def Seconds_def Sub_def minDuration_def
  maxDuration_def resolveRate_def rateForOS_def lower_simps add_at_def rate_defs

text \<open>
  C1, as the code has it. The per-workflow map has a key for every workflow name of the
  input, also for a workflow none of whose jobs has a positive duration. The per-job map
  has a key for exactly the names of the jobs with a positive duration: a job whose
  duration is zero or negative is skipped before the map is written.
\<close>

theorem PerJob_PerWorkflow_keys:
  "dom (PerWorkflow (CalculateCost srt analyses defaultOS d)) =
     WorkflowAnalysis_Name ` set analyses
   \<and> dom (PerJob (CalculateCost srt analyses defaultOS d)) =
     JobAnalysis_Name ` {j \<in> \<Union> (set (map (\<lambda>w. set (WorkflowAnalysis_Jobs w)) analyses)).
                          0 < JobAnalysis_Duration j}"
proof -
  obtain report allSteps where run: "CalculateCost_workflows defaultOS analyses
     (\<lparr>PerStep = [], PerJob = Map.empty, PerWorkflow = Map.empty, TotalCost = 0,
       ProjectedCost30 = 0, TopSteps = []\<rparr>, []) = (report, allSteps)"
    by (cases "CalculateCost_workflows defaultOS analyses
     (\<lparr>PerStep = [], PerJob = Map.empty, PerWorkflow = Map.empty, TotalCost = 0,
       ProjectedCost30 = 0, TopSteps = []\<rparr>, [])") auto
  show ?thesis
    using CalculateCost_workflows_dom [OF run]
    by (simp add: CalculateCost_fields [OF run] Minutes_pos_iff)
qed

text \<open>
  C1 as stated fails: a workflow "CI" whose one job "noop" has duration 0 leaves the
  per-job map without the key "noop".
\<close>

theorem PerJob_skips_zero_duration_job:
  "''noop'' \<notin> dom (PerJob (CalculateCost sort_stable
      [\<lparr>WorkflowAnalysis_Name = ''CI'',
        WorkflowAnalysis_Jobs =
          [\<lparr>JobAnalysis_Name = ''noop'', JobAnalysis_Duration = 0,
            JobAnalysis_Labels = [''ubuntu-latest''],
            JobAnalysis_Steps = [\<lparr>StepAnalysis_Name = ''nothing'', StepAnalysis_Duration = 0\<rparr>]\<rparr>]\<rparr>]
      ''linux'' 7))"
  by (simp add: eval_simps)

text \<open>
  Computed with exact numbers, the total cost is the sum of the values of the per-workflow
  map and the sum of the values of the per-job map. The program computes in float64; what
  holds of its three totals is in the section on sums under rounding.
\<close>

lemma exact_total_equals_sums:
  "TotalCost (CalculateCost srt analyses defaultOS d) =
     (\<Sum>k\<in>dom (PerWorkflow (CalculateCost srt analyses defaultOS d)).
        the (PerWorkflow (CalculateCost srt analyses defaultOS d) k))
   \<and> TotalCost (CalculateCost srt analyses defaultOS d) =
     (\<Sum>k\<in>dom (PerJob (CalculateCost srt analyses defaultOS d)).
        the (PerJob (CalculateCost srt analyses defaultOS d) k))"
proof -
  obtain report allSteps where run: "CalculateCost_workflows defaultOS analyses
     (\<lparr>PerStep = [], PerJob = Map.empty, PerWorkflow = Map.empty, TotalCost = 0,
       ProjectedCost30 = 0, TopSteps = []\<rparr>, []) = (report, allSteps)"
    by (cases "CalculateCost_workflows defaultOS analyses
     (\<lparr>PerStep = [], PerJob = Map.empty, PerWorkflow = Map.empty, TotalCost = 0,
       ProjectedCost30 = 0, TopSteps = []\<rparr>, [])") auto
  show ?thesis
    using CalculateCost_workflows_inv [OF _ _ run]
    by (simp add: CalculateCost_fields [OF run])
qed

text \<open>
  C6. The 30-day projection is the total cost divided by max(d, 1) and multiplied by 30,
  for every number of observation days d; it is 0 when the total cost is 0.
\<close>

theorem projected_cost:
  "ProjectedCost30 (CalculateCost srt analyses defaultOS d) =
     TotalCost (CalculateCost srt analyses defaultOS d) / real_of_int (max d 1) * 30
   \<and> (TotalCost (CalculateCost srt analyses defaultOS d) = 0 \<longrightarrow>
        ProjectedCost30 (CalculateCost srt analyses defaultOS d) = 0)"
proof -
  obtain report allSteps where run: "CalculateCost_workflows defaultOS analyses
     (\<lparr>PerStep = [], PerJob = Map.empty, PerWorkflow = Map.empty, TotalCost = 0,
       ProjectedCost30 = 0, TopSteps = []\<rparr>, []) = (report, allSteps)"
    by (cases "CalculateCost_workflows defaultOS analyses
     (\<lparr>PerStep = [], PerJob = Map.empty, PerWorkflow = Map.empty, TotalCost = 0,
       ProjectedCost30 = 0, TopSteps = []\<rparr>, [])") auto
  show ?thesis
    by (simp add: CalculateCost_fields [OF run])
qed

theorem projected_cost_witness:
  "TotalCost (CalculateCost sort_stable
      [\<lparr>WorkflowAnalysis_Name = ''CI'',
        WorkflowAnalysis_Jobs =
          [\<lparr>JobAnalysis_Name = ''noop'', JobAnalysis_Duration = 0,
            JobAnalysis_Labels = [''ubuntu-latest''],
            JobAnalysis_Steps = [\<lparr>StepAnalysis_Name = ''nothing'', StepAnalysis_Duration = 0\<rparr>]\<rparr>]\<rparr>]
      ''linux'' 0) = 0
   \<and> ProjectedCost30 (CalculateCost sort_stable
      [\<lparr>WorkflowAnalysis_Name = ''CI'',
        WorkflowAnalysis_Jobs =
          [\<lparr>JobAnalysis_Name = ''noop'', JobAnalysis_Duration = 0,
            JobAnalysis_Labels = [''ubuntu-latest''],
            JobAnalysis_Steps = [\<lparr>StepAnalysis_Name = ''nothing'', StepAnalysis_Duration = 0\<rparr>]\<rparr>]\<rparr>]
      ''linux'' 0) = 0
   \<and> ProjectedCost30 (CalculateCost sort_stable
      [\<lparr>WorkflowAnalysis_Name = ''CI'',
        WorkflowAnalysis_Jobs =
          [\<lparr>JobAnalysis_Name = ''build'', JobAnalysis_Duration = 600000000000,
            JobAnalysis_Labels = [''ubuntu-latest''], JobAnalysis_Steps = []\<rparr>]\<rparr>]
      ''linux'' (- 5)) = 10 * RateLinux * 30"
proof -
  have z: "TotalCost (CalculateCost sort_stable
      [\<lparr>WorkflowAnalysis_Name = ''CI'',
        WorkflowAnalysis_Jobs =
          [\<lparr>JobAnalysis_Name = ''noop'', JobAnalysis_Duration = 0,
            JobAnalysis_Labels = [''ubuntu-latest''],
            JobAnalysis_Steps = [\<lparr>StepAnalysis_Name = ''nothing'', StepAnalysis_Duration = 0\<rparr>]\<rparr>]\<rparr>]
      ''linux'' 0) = 0"
    by (simp add: eval_simps)
  have p: "ProjectedCost30 (CalculateCost sort_stable
      [\<lparr>WorkflowAnalysis_Name = ''CI'',
        WorkflowAnalysis_Jobs =
          [\<lparr>JobAnalysis_Name = ''noop'', JobAnalysis_Duration = 0,
            JobAnalysis_Labels = [''ubuntu-latest''],
            JobAnalysis_Steps = [\<lparr>StepAnalysis_Name = ''nothing'', StepAnalysis_Duration = 0\<rparr>]\<rparr>]\<rparr>]
      ''linux'' 0) = 0"
    using z projected_cost [of sort_stable "[\<lparr>WorkflowAnalysis_Name = ''CI'',
        WorkflowAnalysis_Jobs =
          [\<lparr>JobAnalysis_Name = ''noop'', JobAnalysis_Duration = 0,
            JobAnalysis_Labels = [''ubuntu-latest''],
            JobAnalysis_Steps = [\<lparr>StepAnalysis_Name = ''nothing'', StepAnalysis_Duration = 0\<rparr>]\<rparr>]\<rparr>]" "''linux''" 0]
    by blast
  have t: "TotalCost (CalculateCost sort_stable
      [\<lparr>WorkflowAnalysis_Name = ''CI'',
        WorkflowAnalysis_Jobs =
          [\<lparr>JobAnalysis_Name = ''build'', JobAnalysis_Duration = 600000000000,
            JobAnalysis_Labels = [''ubuntu-latest''], JobAnalysis_Steps = []\<rparr>]\<rparr>]
      ''linux'' (- 5)) = 10 * RateLinux"
    by (simp add: eval_simps)
  have q: "ProjectedCost30 (CalculateCost sort_stable
      [\<lparr>WorkflowAnalysis_Name = ''CI'',
        WorkflowAnalysis_Jobs =
          [\<lparr>JobAnalysis_Name = ''build'', JobAnalysis_Duration = 600000000000,
            JobAnalysis_Labels = [''ubuntu-latest''], JobAnalysis_Steps = []\<rparr>]\<rparr>]
      ''linux'' (- 5)) = 10 * RateLinux * 30"
    using projected_cost [of sort_stable "[\<lparr>WorkflowAnalysis_Name = ''CI'',
        WorkflowAnalysis_Jobs =
          [\<lparr>JobAnalysis_Name = ''build'', JobAnalysis_Duration = 600000000000,
            JobAnalysis_Labels = [''ubuntu-latest''], JobAnalysis_Steps = []\<rparr>]\<rparr>]" "''linux''" "- 5"]
    by (simp add: t)
  show ?thesis using z p q by blast
qed

section \<open>Sorting functions that keep the promise of sort.Slice\<close>

lemma mset_insert_before: "mset (insert_before lt x ys) = add_mset x (mset ys)"
  by (induction ys) simp_all

lemma mset_sort_stable: "mset (sort_stable lt xs) = mset xs"
  by (induction xs) (simp_all add: mset_insert_before)

lemma mset_insert_behind: "mset (insert_behind lt x ys) = add_mset x (mset ys)"
  by (induction ys) simp_all

lemma mset_sort_reversing: "mset (sort_reversing lt xs) = mset xs"
  by (induction xs) (simp_all add: mset_insert_behind)

lemma set_insert_before: "set (insert_before lt x ys) = insert x (set ys)"
  by (metis mset_insert_before set_mset_add_mset_insert set_mset_mset)

lemma set_insert_behind: "set (insert_behind lt x ys) = insert x (set ys)"
  by (metis mset_insert_behind set_mset_add_mset_insert set_mset_mset)

lemma sorted_insert_before:
  fixes f :: "'a \<Rightarrow> real"
  shows "sorted_wrt (\<lambda>a b. \<not> f b > f a) ys \<Longrightarrow>
         sorted_wrt (\<lambda>a b. \<not> f b > f a) (insert_before (\<lambda>a b. f a > f b) x ys)"
  by (induction ys) (auto simp: set_insert_before)

lemma sorted_insert_behind:
  fixes f :: "'a \<Rightarrow> real"
  shows "sorted_wrt (\<lambda>a b. \<not> f b > f a) ys \<Longrightarrow>
         sorted_wrt (\<lambda>a b. \<not> f b > f a) (insert_behind (\<lambda>a b. f a > f b) x ys)"
  by (induction ys) (auto simp: set_insert_behind)

lemma sort_stable_ok:
  fixes f :: "'a \<Rightarrow> real"
  shows "sort_Slice_ok sort_stable (\<lambda>a b. f a > f b)"
proof -
  have "sorted_wrt (\<lambda>a b. \<not> f b > f a) (sort_stable (\<lambda>a b. f a > f b) xs)" for xs
    by (induction xs) (simp_all add: sorted_insert_before)
  then show ?thesis by (simp add: sort_Slice_ok_def mset_sort_stable)
qed

lemma sort_reversing_ok:
  fixes f :: "'a \<Rightarrow> real"
  shows "sort_Slice_ok sort_reversing (\<lambda>a b. f a > f b)"
proof -
  have "sorted_wrt (\<lambda>a b. \<not> f b > f a) (sort_reversing (\<lambda>a b. f a > f b) xs)" for xs
    by (induction xs) (simp_all add: sorted_insert_behind)
  then show ?thesis by (simp add: sort_Slice_ok_def mset_sort_reversing)
qed

lemma insert_before_insort:
  fixes f :: "'a \<Rightarrow> real"
  shows "insert_before (\<lambda>a b. f a > f b) x ys = insort_key (\<lambda>x. - f x) x ys"
  by (induction ys) auto

lemma sort_stable_eq:
  fixes f :: "'a \<Rightarrow> real"
  shows "sort_stable (\<lambda>a b. f a > f b) xs = stable_desc f xs"
  by (induction xs) (simp_all add: stable_desc_def insert_before_insort)

text \<open>What the contract fixes: the keys of the result, position by position.\<close>

lemma sort_Slice_keys:
  fixes f :: "'a \<Rightarrow> real"
  assumes "sort_Slice_ok srt (\<lambda>a b. f a > f b)"
  shows "map f (srt (\<lambda>a b. f a > f b) xs) = map f (stable_desc f xs)"
proof -
  let ?ys = "srt (\<lambda>a b. f a > f b) xs"
  let ?g = "\<lambda>x. - f x"
  have m: "mset ?ys = mset xs" and s: "sorted_wrt (\<lambda>a b. \<not> f b > f a) ?ys"
    using assms by (simp_all add: sort_Slice_ok_def)
  have "sorted (map ?g ?ys)"
    using s by (simp add: sorted_map not_less) 
  moreover have "mset (map ?g ?ys) = mset (map ?g xs)"
    using m by (metis mset_map)
  ultimately have a: "map ?g ?ys = sort (map ?g xs)"
    by (metis properties_for_sort)
  have "sorted (map ?g (stable_desc f xs))"
    by (simp add: stable_desc_def)
  moreover have "mset (map ?g (stable_desc f xs)) = mset (map ?g xs)"
    by (simp add: stable_desc_def)
  ultimately have b: "map ?g (stable_desc f xs) = sort (map ?g xs)"
    by (metis properties_for_sort)
  have "map ?g ?ys = map ?g (stable_desc f xs)" using a b by simp
  then have "map (uminus \<circ> ?g) ?ys = map (uminus \<circ> ?g) (stable_desc f xs)"
    by (metis map_map)
  then show ?thesis by (simp add: comp_def)
qed

lemma sort_Slice_distinct:
  fixes f :: "'a \<Rightarrow> real"
  assumes ok: "sort_Slice_ok srt (\<lambda>a b. f a > f b)" and d: "distinct (map f xs)"
  shows "srt (\<lambda>a b. f a > f b) xs = stable_desc f xs"
proof -
  let ?ys = "srt (\<lambda>a b. f a > f b) xs"
  have "set ?ys = set xs" using ok by (metis sort_Slice_ok_def mset_eq_setD)
  moreover have "set (stable_desc f xs) = set xs" by (simp add: stable_desc_def)
  moreover have "inj_on f (set xs)" using d by (simp add: distinct_map)
  ultimately have "inj_on f (set ?ys \<union> set (stable_desc f xs))" by simp
  then show ?thesis using sort_Slice_keys [OF ok, of xs] by (rule inj_on_map_eq_map [THEN iffD1])
qed

section \<open>The ranking of the steps\<close>

lemma PerStep_tied_steps:
  "PerStep (CalculateCost srt tied_steps ''linux'' 1) =
     map (\<lambda>(n, m). \<lparr>Entry_Workflow = ''CI'', Entry_Job = ''build'', Entry_Step = n,
                      Entry_Cost = m * RateLinux, Entry_Minutes = m\<rparr>)
       [(''s0'', 1), (''s1'', 1), (''s2'', 1), (''s3'', 1), (''s4'', 1), (''s5'', 1), (''s6'', 1),
        (''s7'', 1), (''s8'', 1), (''s9'', 1), (''s10'', 1), (''s11'', 1), (''s12'', 2)]"
  by (simp add: tied_steps_def eval_simps)

lemma TopSteps_tied_steps_reversing:
  "map Entry_Step (TopSteps (CalculateCost sort_reversing tied_steps ''linux'' 1)) =
     [''s12'', ''s11'', ''s10'', ''s9'', ''s8'']"
  by (simp add: tied_steps_def eval_simps)

lemma stable_tied_steps:
  "map Entry_Step (take 5 (stable_desc Entry_Cost (PerStep (CalculateCost sort_reversing tied_steps ''linux'' 1)))) =
     [''s12'', ''s0'', ''s1'', ''s2'', ''s3'']"
  by (simp add: PerStep_tied_steps stable_desc_def rate_defs)

lemma PerStep_seven_steps:
  "PerStep (CalculateCost srt seven_steps ''linux'' 1) =
     map (\<lambda>(n, m). \<lparr>Entry_Workflow = ''BigWorkflow'', Entry_Job = ''big-job'', Entry_Step = n,
                      Entry_Cost = m * RateLinux, Entry_Minutes = m\<rparr>)
       [(''step1'', 1), (''step2'', 2), (''step3'', 3), (''step4'', 4), (''step5'', 5),
        (''step6'', 6), (''step7'', 7)]"
  by (simp add: seven_steps_def eval_simps)

text \<open>
  C2, as the code has it. For every sorting function that keeps the promise of
  \<^verbatim>\<open>sort.Slice\<close>, the top list has min(5, n) entries for the n entries of the step list;
  it is the front of a rearrangement of the step list in descending order of cost; its
  costs are, position by position, those of the stable descending sort; and when no two
  entries of the step list have the same cost it is the front of the stable descending
  sort. Which of several entries of equal cost comes first is left to the sorting function.
\<close>

theorem TopSteps_sorted_prefix:
  assumes ok: "sort_Slice_ok srt (\<lambda>a b. Entry_Cost a > Entry_Cost b)"
    and r: "r = CalculateCost srt analyses defaultOS d"
  shows "length (TopSteps r) = min 5 (length (PerStep r))
   \<and> (\<exists>rest. mset (TopSteps r @ rest) = mset (PerStep r) \<and>
         sorted_wrt (\<lambda>a b. Entry_Cost a \<ge> Entry_Cost b) (TopSteps r @ rest))
   \<and> map Entry_Cost (TopSteps r) =
       map Entry_Cost (take (min 5 (length (PerStep r))) (stable_desc Entry_Cost (PerStep r)))
   \<and> (distinct (map Entry_Cost (PerStep r)) \<longrightarrow>
        TopSteps r = take (min 5 (length (PerStep r))) (stable_desc Entry_Cost (PerStep r)))"
proof -
  obtain report allSteps where run: "CalculateCost_workflows defaultOS analyses
     (\<lparr>PerStep = [], PerJob = Map.empty, PerWorkflow = Map.empty, TotalCost = 0,
       ProjectedCost30 = 0, TopSteps = []\<rparr>, []) = (report, allSteps)"
    by (cases "CalculateCost_workflows defaultOS analyses
     (\<lparr>PerStep = [], PerJob = Map.empty, PerWorkflow = Map.empty, TotalCost = 0,
       ProjectedCost30 = 0, TopSteps = []\<rparr>, [])") auto
  let ?lt = "\<lambda>a b. Entry_Cost a > Entry_Cost b"
  let ?ys = "srt ?lt allSteps"
  have m: "mset ?ys = mset allSteps" and s: "sorted_wrt (\<lambda>a b. \<not> ?lt b a) ?ys"
    using ok by (simp_all add: sort_Slice_ok_def)
  have len: "length ?ys = length allSteps" using m by (rule mset_eq_length)
  have ps: "PerStep r = allSteps" by (simp add: r CalculateCost_fields [OF run])
  have ts: "TopSteps r = take (min 5 (length allSteps)) ?ys"
    by (simp add: r CalculateCost_fields [OF run] len)
  have c1: "length (TopSteps r) = min 5 (length (PerStep r))"
    by (simp add: ts ps len)
  have "mset (TopSteps r @ drop (min 5 (length allSteps)) ?ys) = mset (PerStep r)"
    unfolding ts ps append_take_drop_id by (rule m)
  moreover have "sorted_wrt (\<lambda>a b. Entry_Cost a \<ge> Entry_Cost b)
      (TopSteps r @ drop (min 5 (length allSteps)) ?ys)"
    unfolding ts append_take_drop_id using s by (simp add: not_less)
  ultimately have c2: "\<exists>rest. mset (TopSteps r @ rest) = mset (PerStep r) \<and>
         sorted_wrt (\<lambda>a b. Entry_Cost a \<ge> Entry_Cost b) (TopSteps r @ rest)"
    by blast
  have c3: "map Entry_Cost (TopSteps r) =
       map Entry_Cost (take (min 5 (length (PerStep r))) (stable_desc Entry_Cost (PerStep r)))"
    unfolding ts ps take_map [symmetric] using sort_Slice_keys [OF ok, of allSteps] by simp
  have c4: "distinct (map Entry_Cost (PerStep r)) \<longrightarrow>
        TopSteps r = take (min 5 (length (PerStep r))) (stable_desc Entry_Cost (PerStep r))"
    by (simp add: ts ps sort_Slice_distinct [OF ok])
  show ?thesis using c1 c2 c3 c4 by blast
qed

theorem TopSteps_sorted_prefix_witness:
  "sort_Slice_ok sort_stable (\<lambda>a b. Entry_Cost a > Entry_Cost b)
   \<and> distinct (map Entry_Cost (PerStep (CalculateCost sort_stable seven_steps ''linux'' 1)))
   \<and> length (TopSteps (CalculateCost sort_stable seven_steps ''linux'' 1)) = 5
   \<and> TopSteps (CalculateCost sort_stable seven_steps ''linux'' 1) =
       take 5 (stable_desc Entry_Cost (PerStep (CalculateCost sort_stable seven_steps ''linux'' 1)))
   \<and> map Entry_Step (TopSteps (CalculateCost sort_stable seven_steps ''linux'' 1)) =
       [''step7'', ''step6'', ''step5'', ''step4'', ''step3'']"
proof -
  let ?r = "CalculateCost sort_stable seven_steps ''linux'' 1"
  have ok: "sort_Slice_ok sort_stable (\<lambda>a b. Entry_Cost a > Entry_Cost b)"
    by (rule sort_stable_ok)
  have d: "distinct (map Entry_Cost (PerStep ?r))"
    by (simp add: PerStep_seven_steps rate_defs)
  have n: "min 5 (length (PerStep ?r)) = 5"
    by (simp add: PerStep_seven_steps)
  note T = TopSteps_sorted_prefix [OF ok refl, of seven_steps "''linux''" 1, unfolded n]
  have t1: "length (TopSteps ?r) = 5" using T by blast
  have t2: "TopSteps ?r = take 5 (stable_desc Entry_Cost (PerStep ?r))" using T d by blast
  have "map Entry_Step (take 5 (stable_desc Entry_Cost (PerStep ?r))) =
      [''step7'', ''step6'', ''step5'', ''step4'', ''step3'']"
    by (simp add: PerStep_seven_steps stable_desc_def rate_defs)
  then have t3: "map Entry_Step (TopSteps ?r) =
      [''step7'', ''step6'', ''step5'', ''step4'', ''step3'']"
    using t2 by simp
  show ?thesis using ok d t1 t2 t3 by blast
qed

text \<open>
  C2 as stated fails: the promise of \<^verbatim>\<open>sort.Slice\<close> does not fix the order of entries of
  equal cost. On twelve steps of one minute followed by one of two minutes, a sorting
  function that keeps the promise returns the one-minute steps in another order than the
  step list has them.
\<close>

theorem TopSteps_ties_reordered:
  "sort_Slice_ok sort_reversing (\<lambda>a b. Entry_Cost a > Entry_Cost b)
   \<and> TopSteps (CalculateCost sort_reversing tied_steps ''linux'' 1) \<noteq>
       take (min 5 (length (PerStep (CalculateCost sort_reversing tied_steps ''linux'' 1))))
         (stable_desc Entry_Cost (PerStep (CalculateCost sort_reversing tied_steps ''linux'' 1)))"
proof -
  let ?r = "CalculateCost sort_reversing tied_steps ''linux'' 1"
  have ok: "sort_Slice_ok sort_reversing (\<lambda>a b. Entry_Cost a > Entry_Cost b)"
    by (rule sort_reversing_ok)
  have n: "min 5 (length (PerStep ?r)) = 5"
    by (simp add: PerStep_tied_steps)
  have "map Entry_Step (TopSteps ?r) \<noteq>
      map Entry_Step (take 5 (stable_desc Entry_Cost (PerStep ?r)))"
    unfolding TopSteps_tied_steps_reversing stable_tied_steps by simp
  then have "TopSteps ?r \<noteq> take 5 (stable_desc Entry_Cost (PerStep ?r))"
    by auto
  then show ?thesis using ok n by simp
qed

section \<open>The loops of the narrative report\<close>

lemma Waste_if:
  "(if c then r\<lparr>Waste := Waste r @ ws\<rparr> else r) = r\<lparr>Waste := Waste r @ (if c then ws else [])\<rparr>"
  by simp

lemma Analyze_steps_Waste:
  "\<exists>ws stepAgg'. Analyze_steps rate ss (r, stepAgg) = (r\<lparr>Waste := Waste r @ ws\<rparr>, stepAgg') \<and>
     filter (\<lambda>w. Waste_Type w = ''retry'') ws = []"
proof (induction ss arbitrary: r stepAgg)
  case Nil
  have "Analyze_steps rate [] (r, stepAgg) = (r\<lparr>Waste := Waste r @ []\<rparr>, stepAgg)" by simp
  then show ?case by (metis filter.simps(1))
next
  case (Cons s ss)
  let ?sd = "Minutes (Sub (Step_CompletedAt s) (Step_StartedAt s))"
  show ?case
  proof (cases "?sd \<le> 0")
    case True
    then show ?thesis using Cons.IH [of r stepAgg] by (simp add: Let_def)
  next
    case False
    let ?sn = "ToLower (Step_Name s)"
    let ?w1 = "if Contains ?sn ''cache'' \<and> Step_Conclusion s = ''failure''
               then [\<lparr>Waste_Type = ''cache-miss'', Waste_Detail = Step_Name s,
                       Waste_Cost = ?sd * rate\<rparr>] else []"
    let ?w2 = "if ?sd > 3 \<and> (Contains ?sn ''install'' \<or> Contains ?sn ''npm'' \<or> Contains ?sn ''pip'')
               then [\<lparr>Waste_Type = ''slow-deps'',
                       Waste_Detail = Step_Name s @ '' ('' @ fmt_f 1 ?sd @ ''m)'',
                       Waste_Cost = ?sd * rate * 0.5\<rparr>] else []"
    let ?r1 = "r\<lparr>Waste := Waste r @ ?w1 @ ?w2\<rparr>"
    have step: "Analyze_steps rate (s # ss) (r, stepAgg) =
        Analyze_steps rate ss (?r1, add_at stepAgg (Step_Name s) ?sd)"
      using False by (simp add: Let_def Waste_if split del: if_split)
    obtain ws stepAgg' where
      run: "Analyze_steps rate ss (?r1, add_at stepAgg (Step_Name s) ?sd) =
              (?r1\<lparr>Waste := Waste ?r1 @ ws\<rparr>, stepAgg')"
      and nr: "filter (\<lambda>w. Waste_Type w = ''retry'') ws = []"
      using Cons.IH [of ?r1 "add_at stepAgg (Step_Name s) ?sd"] by blast
    have "Analyze_steps rate (s # ss) (r, stepAgg) = (r\<lparr>Waste := Waste r @ (?w1 @ ?w2 @ ws)\<rparr>, stepAgg')"
      using step run by simp
    moreover have "filter (\<lambda>w. Waste_Type w = ''retry'') (?w1 @ ?w2 @ ws) = []"
      using nr by simp
    ultimately show ?thesis by blast
  qed
qed

lemma Analyze_jobs_Waste:
  "\<exists>ws tm tc bw stepAgg' hasMac'.
     Analyze_jobs js (r, stepAgg, hasMac) =
       (r\<lparr>TotalMinutes := tm, Report_TotalCost := tc, ByWorkflow := bw, Waste := Waste r @ ws\<rparr>,
        stepAgg', hasMac') \<and>
     filter (\<lambda>w. Waste_Type w = ''retry'') ws =
       map (\<lambda>j. \<lparr>Waste_Type = ''retry'', Waste_Detail = ''Failed: '' @ Job_Name j,
                   Waste_Cost = Minutes (Sub (Job_CompletedAt j) (Job_StartedAt j)) *
                                RunnerRate (Job_Labels j)\<rparr>)
           (filter (\<lambda>j. 0 < Minutes (Sub (Job_CompletedAt j) (Job_StartedAt j)) \<and>
                        Job_Conclusion j = ''failure'') js)"
proof (induction js arbitrary: r stepAgg hasMac)
  case Nil
  have "Analyze_jobs [] (r, stepAgg, hasMac) =
      (r\<lparr>TotalMinutes := TotalMinutes r, Report_TotalCost := Report_TotalCost r,
         ByWorkflow := ByWorkflow r, Waste := Waste r @ []\<rparr>, stepAgg, hasMac)"
    by simp
  moreover have "filter (\<lambda>w. Waste_Type w = ''retry'') [] =
       map (\<lambda>j. \<lparr>Waste_Type = ''retry'', Waste_Detail = ''Failed: '' @ Job_Name j,
                   Waste_Cost = Minutes (Sub (Job_CompletedAt j) (Job_StartedAt j)) *
                                RunnerRate (Job_Labels j)\<rparr>)
           (filter (\<lambda>j. 0 < Minutes (Sub (Job_CompletedAt j) (Job_StartedAt j)) \<and>
                        Job_Conclusion j = ''failure'') [])"
    by simp
  ultimately show ?case by blast
next
  case (Cons j js)
  let ?dur = "Minutes (Sub (Job_CompletedAt j) (Job_StartedAt j))"
  let ?rate = "RunnerRate (Job_Labels j)"
  show ?case
  proof (cases "?dur \<le> 0")
    case True
    then show ?thesis using Cons.IH [of r stepAgg hasMac] by (simp add: Let_def)
  next
    case False
    let ?w0 = "if Job_Conclusion j = ''failure''
               then [\<lparr>Waste_Type = ''retry'', Waste_Detail = ''Failed: '' @ Job_Name j,
                       Waste_Cost = ?dur * ?rate\<rparr>] else []"
    let ?r1 = "r\<lparr>TotalMinutes := TotalMinutes r + ?dur,
                  Report_TotalCost := Report_TotalCost r + ?dur * ?rate,
                  ByWorkflow := add_at (ByWorkflow r) (Job_Workflow j) (?dur * ?rate),
                  Waste := Waste r @ ?w0\<rparr>"
    let ?hm = "if ?rate = 0.08 then True else hasMac"
    obtain ws1 sa1 where
      steps: "Analyze_steps ?rate (Job_Steps j) (?r1, stepAgg) = (?r1\<lparr>Waste := Waste ?r1 @ ws1\<rparr>, sa1)"
      and nr: "filter (\<lambda>w. Waste_Type w = ''retry'') ws1 = []"
      using Analyze_steps_Waste [of ?rate "Job_Steps j" ?r1 stepAgg] by blast
    let ?r2 = "?r1\<lparr>Waste := Waste ?r1 @ ws1\<rparr>"
    have step: "Analyze_jobs (j # js) (r, stepAgg, hasMac) = Analyze_jobs js (?r2, sa1, ?hm)"
      using False steps by (simp add: Let_def Waste_if split del: if_split)
    obtain ws tm tc bw sa' hm' where
      run: "Analyze_jobs js (?r2, sa1, ?hm) =
          (?r2\<lparr>TotalMinutes := tm, Report_TotalCost := tc, ByWorkflow := bw,
              Waste := Waste ?r2 @ ws\<rparr>, sa', hm')"
      and fr: "filter (\<lambda>w. Waste_Type w = ''retry'') ws =
       map (\<lambda>j. \<lparr>Waste_Type = ''retry'', Waste_Detail = ''Failed: '' @ Job_Name j,
                   Waste_Cost = Minutes (Sub (Job_CompletedAt j) (Job_StartedAt j)) *
                                RunnerRate (Job_Labels j)\<rparr>)
           (filter (\<lambda>j. 0 < Minutes (Sub (Job_CompletedAt j) (Job_StartedAt j)) \<and>
                        Job_Conclusion j = ''failure'') js)"
      using Cons.IH [of ?r2 sa1 ?hm] by blast
    have "Analyze_jobs (j # js) (r, stepAgg, hasMac) =
        (r\<lparr>TotalMinutes := tm, Report_TotalCost := tc, ByWorkflow := bw,
           Waste := Waste r @ (?w0 @ ws1 @ ws)\<rparr>, sa', hm')"
      using step run by simp
    moreover have "filter (\<lambda>w. Waste_Type w = ''retry'') (?w0 @ ws1 @ ws) =
       map (\<lambda>j. \<lparr>Waste_Type = ''retry'', Waste_Detail = ''Failed: '' @ Job_Name j,
                   Waste_Cost = Minutes (Sub (Job_CompletedAt j) (Job_StartedAt j)) *
                                RunnerRate (Job_Labels j)\<rparr>)
           (filter (\<lambda>j. 0 < Minutes (Sub (Job_CompletedAt j) (Job_StartedAt j)) \<and>
                        Job_Conclusion j = ''failure'') (j # js))"
      using False nr fr by simp
    ultimately show ?thesis by blast
  qed
qed

section \<open>The narrative report\<close>

lemma Analyze_fields:
  assumes "Analyze_jobs jobs (Report_empty, Map.empty, False) = (r, stepAgg, hasMac)"
  shows "Waste (Analyze ks srt jobs days) = Waste r"
    and "TotalMinutes (Analyze ks srt jobs days) = TotalMinutes r"
    and "Report_TotalCost (Analyze ks srt jobs days) = Report_TotalCost r"
    and "ByWorkflow (Analyze ks srt jobs days) = ByWorkflow r"
    and "MonthlyCost (Analyze ks srt jobs days) =
           (if days > 0 then Report_TotalCost r / real_of_int days * 30 else MonthlyCost r)"
  using assms by (simp_all add: Analyze_def Let_def)

lemma Analyze_jobs_empty:
  "\<exists>ws tm tc bw stepAgg hasMac.
     Analyze_jobs jobs (Report_empty, Map.empty, False) =
       (\<lparr>TotalMinutes = tm, Report_TotalCost = tc, MonthlyCost = 0, ByWorkflow = bw,
         Report_TopSteps = [], Waste = ws, Suggestions = []\<rparr>, stepAgg, hasMac) \<and>
     filter (\<lambda>w. Waste_Type w = ''retry'') ws =
       map (\<lambda>j. \<lparr>Waste_Type = ''retry'', Waste_Detail = ''Failed: '' @ Job_Name j,
                   Waste_Cost = Minutes (Sub (Job_CompletedAt j) (Job_StartedAt j)) *
                                RunnerRate (Job_Labels j)\<rparr>)
           (filter (\<lambda>j. 0 < Minutes (Sub (Job_CompletedAt j) (Job_StartedAt j)) \<and>
                        Job_Conclusion j = ''failure'') jobs)"
  using Analyze_jobs_Waste [of jobs Report_empty Map.empty False]
  by (auto simp: Report_empty_def)

lemma Sub_pos_iff: "0 < Sub t u \<longleftrightarrow> u < t"
  by (simp add: Sub_def Let_def minDuration_def maxDuration_def)

lemmas Analyze_eval = Analyze_def Report_empty_def Let_def Minutes_def Sub_def minDuration_def
  maxDuration_def lower_simps add_at_def

text \<open>
  C8, as the code has it. The waste items of type "retry" are, in the order of the jobs,
  one item for every job that completed after it started and whose conclusion is
  "failure", with the job's minutes times its rate as cost. A job that did not take a
  positive time is skipped before its conclusion is read.
\<close>

theorem Analyze_retry_waste:
  "filter (\<lambda>w. Waste_Type w = ''retry'') (Waste (Analyze ks srt jobs days)) =
     map (\<lambda>j. \<lparr>Waste_Type = ''retry'', Waste_Detail = ''Failed: '' @ Job_Name j,
                 Waste_Cost = Minutes (Sub (Job_CompletedAt j) (Job_StartedAt j)) *
                              RunnerRate (Job_Labels j)\<rparr>)
         (filter (\<lambda>j. Job_StartedAt j < Job_CompletedAt j \<and> Job_Conclusion j = ''failure'') jobs)"
proof -
  obtain ws tm tc bw stepAgg hasMac where
    run: "Analyze_jobs jobs (Report_empty, Map.empty, False) =
       (\<lparr>TotalMinutes = tm, Report_TotalCost = tc, MonthlyCost = 0, ByWorkflow = bw,
         Report_TopSteps = [], Waste = ws, Suggestions = []\<rparr>, stepAgg, hasMac)"
    and fr: "filter (\<lambda>w. Waste_Type w = ''retry'') ws =
       map (\<lambda>j. \<lparr>Waste_Type = ''retry'', Waste_Detail = ''Failed: '' @ Job_Name j,
                   Waste_Cost = Minutes (Sub (Job_CompletedAt j) (Job_StartedAt j)) *
                                RunnerRate (Job_Labels j)\<rparr>)
           (filter (\<lambda>j. 0 < Minutes (Sub (Job_CompletedAt j) (Job_StartedAt j)) \<and>
                        Job_Conclusion j = ''failure'') jobs)"
    using Analyze_jobs_empty [of jobs] by blast
  show ?thesis
    using fr by (simp add: Analyze_fields [OF run] Minutes_pos_iff Sub_pos_iff)
qed

text \<open>
  C8 as stated fails: a job whose conclusion is "failure" and whose start and completion
  coincide gets no waste item.
\<close>

theorem Analyze_failed_job_of_no_duration:
  "Job_Conclusion \<lparr>Job_Name = ''deploy'', Job_Workflow = ''CI'', Job_Conclusion = ''failure'',
        Job_Labels = [''ubuntu-latest''], Job_StartedAt = 0, Job_CompletedAt = 0,
        Job_Steps = []\<rparr> = ''failure''
   \<and> Waste (Analyze [] sort_stable
      [\<lparr>Job_Name = ''deploy'', Job_Workflow = ''CI'', Job_Conclusion = ''failure'',
        Job_Labels = [''ubuntu-latest''], Job_StartedAt = 0, Job_CompletedAt = 0,
        Job_Steps = []\<rparr>] 7) = []"
  by (simp add: Analyze_eval)

text \<open>
  C3, as the code has it. For a number of observation days that is zero or negative,
  \<open>monthlyScale\<close> is 1 and \<open>Analyze\<close> leaves the monthly estimate at 0.
\<close>

theorem nonpositive_days:
  "d \<le> 0 \<Longrightarrow> monthlyScale d = 1 \<and> MonthlyCost (Analyze ks srt jobs d) = 0"
proof -
  assume d: "d \<le> 0"
  obtain ws tm tc bw stepAgg hasMac where
    run: "Analyze_jobs jobs (Report_empty, Map.empty, False) =
       (\<lparr>TotalMinutes = tm, Report_TotalCost = tc, MonthlyCost = 0, ByWorkflow = bw,
         Report_TopSteps = [], Waste = ws, Suggestions = []\<rparr>, stepAgg, hasMac)"
    using Analyze_jobs_empty [of jobs] by blast
  show ?thesis using d by (simp add: monthlyScale_def Analyze_fields [OF run])
qed

theorem nonpositive_days_witness:
  "(0::int) \<le> 0 \<and> monthlyScale 0 = 1
   \<and> MonthlyCost (Analyze [] sort_stable
      [\<lparr>Job_Name = ''build'', Job_Workflow = ''CI'', Job_Conclusion = ''success'',
        Job_Labels = [''ubuntu-latest''], Job_StartedAt = 0, Job_CompletedAt = 600000000000,
        Job_Steps = []\<rparr>] 0) = 0"
  using nonpositive_days [of 0 "[]" sort_stable
      "[\<lparr>Job_Name = ''build'', Job_Workflow = ''CI'', Job_Conclusion = ''success'',
        Job_Labels = [''ubuntu-latest''], Job_StartedAt = 0, Job_CompletedAt = 600000000000,
        Job_Steps = []\<rparr>]"]
  by simp

text \<open>
  C3 as stated fails: for 0 days \<open>monthlyScale\<close> is not 30, and the monthly estimate of
  \<open>Analyze\<close> for one job of ten minutes on "ubuntu-latest" is not 30 times the total cost.
\<close>

theorem nonpositive_days_not_one_day:
  "monthlyScale 0 \<noteq> 30
   \<and> MonthlyCost (Analyze [] sort_stable
      [\<lparr>Job_Name = ''build'', Job_Workflow = ''CI'', Job_Conclusion = ''success'',
        Job_Labels = [''ubuntu-latest''], Job_StartedAt = 0, Job_CompletedAt = 600000000000,
        Job_Steps = []\<rparr>] 0) \<noteq>
     Report_TotalCost (Analyze [] sort_stable
      [\<lparr>Job_Name = ''build'', Job_Workflow = ''CI'', Job_Conclusion = ''success'',
        Job_Labels = [''ubuntu-latest''], Job_StartedAt = 0, Job_CompletedAt = 600000000000,
        Job_Steps = []\<rparr>] 0) * 30"
  by (simp add: monthlyScale_def Analyze_eval)

section \<open>What two runs share\<close>

lemma DetectDuplicateSteps_range_eq:
  "DetectDuplicateSteps_range m ks recs =
     recs @ map (\<lambda>k. \<lparr>RuleID = ''duplicate-steps'', Severity = ''medium'',
                       EstimatedMonthlySavings = real_of_int (int (card (the (m k))) - 1) * 5.0,
                       Fix = duplicateSteps_Fix k (card (the (m k)))\<rparr>)
              (filter (\<lambda>k. case m k of None \<Rightarrow> False | Some jobs \<Rightarrow> 2 \<le> card jobs) ks)"
  by (induction ks arbitrary: recs) (auto split: option.splits)

lemma range_order_mset: "range_order ks1 m \<Longrightarrow> range_order ks2 m \<Longrightarrow> mset ks1 = mset ks2"
  by (simp add: range_order_def set_eq_iff_mset_eq_distinct [symmetric])

lemma mset_map_filter_cong:
  "mset xs = mset ys \<Longrightarrow> mset (map f (filter P xs)) = mset (map f (filter P ys))"
  by (metis mset_filter mset_map)

lemma DetectDuplicateSteps_mset:
  assumes "range_order ks1 (stepJobs cr)" and "range_order ks2 (stepJobs cr)"
  shows "mset (DetectDuplicateSteps ks1 cr) = mset (DetectDuplicateSteps ks2 cr)"
  unfolding DetectDuplicateSteps_def DetectDuplicateSteps_range_eq append_Nil
  by (rule mset_map_filter_cong) (rule range_order_mset [OF assms])

lemma mset_short_eq: "mset xs = mset ys \<Longrightarrow> length xs \<le> 1 \<Longrightarrow> xs = ys"
proof -
  assume m: "mset xs = mset ys" and l: "length xs \<le> 1"
  have ly: "length ys = length xs" using m by (metis mset_eq_length)
  show ?thesis
  proof (cases xs)
    case Nil
    then show ?thesis using m by simp
  next
    case (Cons x xs')
    then have "xs' = []" using l by simp
    then have xs: "xs = [x]" using Cons by simp
    then obtain y where ys: "ys = [y]" using ly by (cases ys) auto
    then show ?thesis using m xs by simp
  qed
qed

lemma Analyze_range_eq:
  "Analyze_range stepAgg ks topSteps =
     topSteps @ map (\<lambda>n. \<lparr>StepCost_Name = n, StepCost_Min = the (stepAgg n)\<rparr>)
                  (filter (\<lambda>n. stepAgg n \<noteq> None) ks)"
  by (induction ks arbitrary: topSteps) (auto split: option.splits)

lemma Analyze_range_order:
  assumes "range_order ks stepAgg"
  shows "Analyze_range stepAgg ks [] =
           map (\<lambda>n. \<lparr>StepCost_Name = n, StepCost_Min = the (stepAgg n)\<rparr>) ks"
proof -
  have "filter (\<lambda>n. stepAgg n \<noteq> None) ks = ks"
    using assms by (auto simp: range_order_def filter_id_conv)
  then show ?thesis by (simp add: Analyze_range_eq)
qed

lemma sorted_desc_unique:
  fixes f :: "'a \<Rightarrow> real"
  assumes m: "mset ys1 = mset ys2"
    and s1: "sorted_wrt (\<lambda>a b. \<not> f b > f a) ys1"
    and s2: "sorted_wrt (\<lambda>a b. \<not> f b > f a) ys2"
    and d: "distinct (map f ys1)"
  shows "ys1 = ys2"
proof -
  let ?g = "\<lambda>x. - f x"
  have "sorted (map ?g ys1)" using s1 by (simp add: sorted_map not_less)
  then have a: "map ?g ys1 = sort (map ?g ys1)" by (metis properties_for_sort)
  have "sorted (map ?g ys2)" using s2 by (simp add: sorted_map not_less)
  moreover have "mset (map ?g ys2) = mset (map ?g ys1)" using m by (metis mset_map)
  ultimately have b: "map ?g ys2 = sort (map ?g ys1)" by (metis properties_for_sort)
  have "map ?g ys1 = map ?g ys2" using a b by simp
  then have "map (uminus \<circ> ?g) ys1 = map (uminus \<circ> ?g) ys2" by (metis map_map)
  then have keys: "map f ys1 = map f ys2" by (simp add: comp_def)
  have "set ys1 = set ys2" using m by (rule mset_eq_setD)
  moreover have "inj_on f (set ys1)" using d by (simp add: distinct_map)
  ultimately have "inj_on f (set ys1 \<union> set ys2)" by simp
  then show ?thesis using keys by (rule inj_on_map_eq_map [THEN iffD1])
qed

lemma Analyze_TopSteps_eq:
  assumes run: "Analyze_jobs jobs (Report_empty, Map.empty, False) = (r, stepAgg, hasMac)"
    and eq: "srt1 (\<lambda>a b. StepCost_Min a > StepCost_Min b) (Analyze_range stepAgg ns1 (Report_TopSteps r)) =
             srt2 (\<lambda>a b. StepCost_Min a > StepCost_Min b) (Analyze_range stepAgg ns2 (Report_TopSteps r))"
  shows "Analyze ns1 srt1 jobs days = Analyze ns2 srt2 jobs days"
  by (simp add: Analyze_def run eq)

lemma stepJobs_two_duplicates:
  "stepJobs two_duplicates =
     [''lint'' \<mapsto> {''build'', ''test''}, ''unit tests'' \<mapsto> {''build'', ''test'', ''deploy''}]"
  by (rule ext) (auto simp: stepJobs_def two_duplicates_def stepJobs_add_def)

lemma stepJobs_combined:
  "stepJobs combined = [''npm install'' \<mapsto> {''build'', ''test''}, ''Checkout'' \<mapsto> {''build''}]"
  by (rule ext) (auto simp: stepJobs_def combined_def stepJobs_add_def)

lemma Analyze_stepAgg_combined:
  "Analyze_stepAgg (Jobs combined) = [''npm install'' \<mapsto> 3, ''Checkout'' \<mapsto> 0.75]"
  by (rule ext) (simp add: Analyze_stepAgg_def combined_def Analyze_eval)

text \<open>
  C9, as the code has it. Take two runs on the same input: two orders in which
  \<^verbatim>\<open>range\<close> visits the keys of each map, and two sorting functions that keep the
  promise of \<^verbatim>\<open>sort.Slice\<close>. \<open>GenerateRecommendations\<close> returns the cache-miss and
  long-checkout recommendations, then the duplicate-steps ones, then the expensive-os ones;
  the two runs return the same duplicate-steps recommendations up to their order, and the
  same list when there is at most one of them. The two runs of \<open>Analyze\<close> agree on the total
  minutes, the total cost, the monthly estimate, the per-workflow costs and the waste
  items, and on the whole report when no two step names have the same accumulated minutes.
\<close>

theorem runs_agree_up_to_order:
  assumes k1: "range_order ks1 (stepJobs cr)" and k2: "range_order ks2 (stepJobs cr)"
    and n1: "range_order ns1 (Analyze_stepAgg jobs)" and n2: "range_order ns2 (Analyze_stepAgg jobs)"
    and s1: "sort_Slice_ok srt1 (\<lambda>a b. StepCost_Min a > StepCost_Min b)"
    and s2: "sort_Slice_ok srt2 (\<lambda>a b. StepCost_Min a > StepCost_Min b)"
  shows "GenerateRecommendations ks1 cr =
           DetectCacheMiss cr @ DetectLongCheckout cr @ DetectDuplicateSteps ks1 cr @
           DetectExpensiveOS cr
   \<and> GenerateRecommendations ks2 cr =
           DetectCacheMiss cr @ DetectLongCheckout cr @ DetectDuplicateSteps ks2 cr @
           DetectExpensiveOS cr
   \<and> mset (DetectDuplicateSteps ks1 cr) = mset (DetectDuplicateSteps ks2 cr)
   \<and> (length (DetectDuplicateSteps ks1 cr) \<le> 1 \<longrightarrow>
        GenerateRecommendations ks1 cr = GenerateRecommendations ks2 cr)
   \<and> TotalMinutes (Analyze ns1 srt1 jobs days) = TotalMinutes (Analyze ns2 srt2 jobs days)
   \<and> Report_TotalCost (Analyze ns1 srt1 jobs days) = Report_TotalCost (Analyze ns2 srt2 jobs days)
   \<and> MonthlyCost (Analyze ns1 srt1 jobs days) = MonthlyCost (Analyze ns2 srt2 jobs days)
   \<and> ByWorkflow (Analyze ns1 srt1 jobs days) = ByWorkflow (Analyze ns2 srt2 jobs days)
   \<and> Waste (Analyze ns1 srt1 jobs days) = Waste (Analyze ns2 srt2 jobs days)
   \<and> (inj_on (Analyze_stepAgg jobs) (dom (Analyze_stepAgg jobs)) \<longrightarrow>
        Analyze ns1 srt1 jobs days = Analyze ns2 srt2 jobs days)"
proof -
  have g: "GenerateRecommendations ks cr =
           DetectCacheMiss cr @ DetectLongCheckout cr @ DetectDuplicateSteps ks cr @
           DetectExpensiveOS cr" for ks
    by (simp add: GenerateRecommendations_def)
  have m: "mset (DetectDuplicateSteps ks1 cr) = mset (DetectDuplicateSteps ks2 cr)"
    using k1 k2 by (rule DetectDuplicateSteps_mset)
  have one: "length (DetectDuplicateSteps ks1 cr) \<le> 1 \<longrightarrow>
        GenerateRecommendations ks1 cr = GenerateRecommendations ks2 cr"
    using mset_short_eq [OF m] by (simp add: g)
  obtain ws tm tc bw stepAgg hasMac where
    run: "Analyze_jobs jobs (Report_empty, Map.empty, False) =
       (\<lparr>TotalMinutes = tm, Report_TotalCost = tc, MonthlyCost = 0, ByWorkflow = bw,
         Report_TopSteps = [], Waste = ws, Suggestions = []\<rparr>, stepAgg, hasMac)"
    using Analyze_jobs_empty [of jobs] by blast
  have sa: "Analyze_stepAgg jobs = stepAgg"
    by (simp add: Analyze_stepAgg_def run)
  have f: "TotalMinutes (Analyze ns1 srt1 jobs days) = TotalMinutes (Analyze ns2 srt2 jobs days)"
    "Report_TotalCost (Analyze ns1 srt1 jobs days) = Report_TotalCost (Analyze ns2 srt2 jobs days)"
    "MonthlyCost (Analyze ns1 srt1 jobs days) = MonthlyCost (Analyze ns2 srt2 jobs days)"
    "ByWorkflow (Analyze ns1 srt1 jobs days) = ByWorkflow (Analyze ns2 srt2 jobs days)"
    "Waste (Analyze ns1 srt1 jobs days) = Waste (Analyze ns2 srt2 jobs days)"
    by (simp_all add: Analyze_fields [OF run])
  have all: "inj_on (Analyze_stepAgg jobs) (dom (Analyze_stepAgg jobs)) \<longrightarrow>
        Analyze ns1 srt1 jobs days = Analyze ns2 srt2 jobs days"
  proof
    assume inj: "inj_on (Analyze_stepAgg jobs) (dom (Analyze_stepAgg jobs))"
    let ?lt = "\<lambda>a b. StepCost_Min a > StepCost_Min b"
    let ?mk = "\<lambda>n. \<lparr>StepCost_Name = n, StepCost_Min = the (stepAgg n)\<rparr>"
    let ?x1 = "Analyze_range stepAgg ns1 []" and ?x2 = "Analyze_range stepAgg ns2 []"
    have x1: "?x1 = map ?mk ns1" using n1 by (simp add: sa Analyze_range_order)
    have x2: "?x2 = map ?mk ns2" using n2 by (simp add: sa Analyze_range_order)
    have mx: "mset ?x1 = mset ?x2"
      unfolding x1 x2 using range_order_mset [OF n1 n2] by (metis mset_map)
    have m1: "mset (srt1 ?lt ?x1) = mset ?x1" and o1: "sorted_wrt (\<lambda>a b. \<not> ?lt b a) (srt1 ?lt ?x1)"
      using s1 by (simp_all add: sort_Slice_ok_def)
    have m2: "mset (srt2 ?lt ?x2) = mset ?x2" and o2: "sorted_wrt (\<lambda>a b. \<not> ?lt b a) (srt2 ?lt ?x2)"
      using s2 by (simp_all add: sort_Slice_ok_def)
    have dn: "distinct ns1" and dom1: "set ns1 = dom stepAgg"
      using n1 by (simp_all add: range_order_def sa)
    have "inj_on (\<lambda>n. the (stepAgg n)) (set ns1)"
    proof (rule inj_onI)
      fix a b assume a: "a \<in> set ns1" and b: "b \<in> set ns1" and e: "the (stepAgg a) = the (stepAgg b)"
      have "stepAgg a = stepAgg b" using a b e dom1 by auto
      then show "a = b" using inj a b dom1 sa by (auto dest: inj_onD)
    qed
    then have "distinct (map (\<lambda>n. the (stepAgg n)) ns1)" using dn by (simp add: distinct_map)
    then have "distinct (map StepCost_Min ?x1)" by (simp add: x1 comp_def)
    moreover have "mset (map StepCost_Min (srt1 ?lt ?x1)) = mset (map StepCost_Min ?x1)"
      using m1 by (metis mset_map)
    ultimately have d1: "distinct (map StepCost_Min (srt1 ?lt ?x1))"
      by (metis mset_eq_imp_distinct_iff)
    have "mset (srt1 ?lt ?x1) = mset (srt2 ?lt ?x2)" using m1 m2 mx by simp
    then have "srt1 ?lt ?x1 = srt2 ?lt ?x2" using o1 o2 d1 by (rule sorted_desc_unique)
    then show "Analyze ns1 srt1 jobs days = Analyze ns2 srt2 jobs days"
      using Analyze_TopSteps_eq [OF run, of srt1 ns1 srt2 ns2 days] by simp
  qed
  show ?thesis using g [of ks1] g [of ks2] m one f all by blast
qed

theorem runs_agree_up_to_order_witness:
  "range_order [''npm install'', ''Checkout''] (stepJobs combined)
   \<and> range_order [''Checkout'', ''npm install''] (stepJobs combined)
   \<and> range_order [''npm install'', ''Checkout''] (Analyze_stepAgg (Jobs combined))
   \<and> range_order [''Checkout'', ''npm install''] (Analyze_stepAgg (Jobs combined))
   \<and> sort_Slice_ok sort_stable (\<lambda>a b. StepCost_Min a > StepCost_Min b)
   \<and> sort_Slice_ok sort_reversing (\<lambda>a b. StepCost_Min a > StepCost_Min b)
   \<and> length (DetectDuplicateSteps [''npm install'', ''Checkout''] combined) \<le> 1
   \<and> inj_on (Analyze_stepAgg (Jobs combined)) (dom (Analyze_stepAgg (Jobs combined)))
   \<and> GenerateRecommendations [''npm install'', ''Checkout''] combined =
       GenerateRecommendations [''Checkout'', ''npm install''] combined
   \<and> Analyze [''npm install'', ''Checkout''] sort_stable (Jobs combined) 7 =
       Analyze [''Checkout'', ''npm install''] sort_reversing (Jobs combined) 7"
proof -
  have k1: "range_order [''npm install'', ''Checkout''] (stepJobs combined)"
    by (auto simp: range_order_def stepJobs_combined)
  have k2: "range_order [''Checkout'', ''npm install''] (stepJobs combined)"
    by (auto simp: range_order_def stepJobs_combined)
  have n1: "range_order [''npm install'', ''Checkout''] (Analyze_stepAgg (Jobs combined))"
    by (auto simp: range_order_def Analyze_stepAgg_combined)
  have n2: "range_order [''Checkout'', ''npm install''] (Analyze_stepAgg (Jobs combined))"
    by (auto simp: range_order_def Analyze_stepAgg_combined)
  have s1: "sort_Slice_ok sort_stable (\<lambda>a b. StepCost_Min a > StepCost_Min b)"
    by (rule sort_stable_ok)
  have s2: "sort_Slice_ok sort_reversing (\<lambda>a b. StepCost_Min a > StepCost_Min b)"
    by (rule sort_reversing_ok)
  have l: "length (DetectDuplicateSteps [''npm install'', ''Checkout''] combined) \<le> 1"
    by (simp add: DetectDuplicateSteps_def stepJobs_combined)
  have i: "inj_on (Analyze_stepAgg (Jobs combined)) (dom (Analyze_stepAgg (Jobs combined)))"
    by (simp add: Analyze_stepAgg_combined)
  note T = runs_agree_up_to_order [OF k1 k2 n1 n2 s1 s2, of 7]
  have g: "GenerateRecommendations [''npm install'', ''Checkout''] combined =
       GenerateRecommendations [''Checkout'', ''npm install''] combined"
    using T l by blast
  have a: "Analyze [''npm install'', ''Checkout''] sort_stable (Jobs combined) 7 =
       Analyze [''Checkout'', ''npm install''] sort_reversing (Jobs combined) 7"
    using T i by blast
  show ?thesis using k1 k2 n1 n2 s1 s2 l i g a by blast
qed

text \<open>
  C9 as stated fails: with two duplicated step names, the two orders in which the keys of
  \<^verbatim>\<open>stepJobs\<close> can be visited give two different recommendation lists.
\<close>

theorem duplicate_steps_order_varies:
  "range_order [''lint'', ''unit tests''] (stepJobs two_duplicates)
   \<and> range_order [''unit tests'', ''lint''] (stepJobs two_duplicates)
   \<and> GenerateRecommendations [''lint'', ''unit tests''] two_duplicates \<noteq>
       GenerateRecommendations [''unit tests'', ''lint''] two_duplicates"
proof -
  have r1: "range_order [''lint'', ''unit tests''] (stepJobs two_duplicates)"
    by (auto simp: range_order_def stepJobs_two_duplicates)
  have r2: "range_order [''unit tests'', ''lint''] (stepJobs two_duplicates)"
    by (auto simp: range_order_def stepJobs_two_duplicates)
  have a: "map EstimatedMonthlySavings (DetectDuplicateSteps [''lint'', ''unit tests''] two_duplicates) = [5, 10]"
    by (simp add: DetectDuplicateSteps_def stepJobs_two_duplicates)
  have b: "map EstimatedMonthlySavings (DetectDuplicateSteps [''unit tests'', ''lint''] two_duplicates) = [10, 5]"
    by (simp add: DetectDuplicateSteps_def stepJobs_two_duplicates)
  have "DetectDuplicateSteps [''lint'', ''unit tests''] two_duplicates \<noteq>
        DetectDuplicateSteps [''unit tests'', ''lint''] two_duplicates"
    using a b by auto
  then have "GenerateRecommendations [''lint'', ''unit tests''] two_duplicates \<noteq>
       GenerateRecommendations [''unit tests'', ''lint''] two_duplicates"
    by (simp add: GenerateRecommendations_def)
  then show ?thesis using r1 r2 by blast
qed

section \<open>The repository's tests on the model\<close>

text \<open>
  The inputs of the repository's tests and the values the tests expect, evaluated on the
  definitions above.
\<close>

lemma test_LinuxPricing:
  "TotalCost (CalculateCost srt
      [\<lparr>WorkflowAnalysis_Name = ''CI'',
        WorkflowAnalysis_Jobs =
          [\<lparr>JobAnalysis_Name = ''build'', JobAnalysis_Duration = 600000000000,
            JobAnalysis_Labels = [''ubuntu-latest''],
            JobAnalysis_Steps =
              [\<lparr>StepAnalysis_Name = ''checkout'', StepAnalysis_Duration = 60000000000\<rparr>,
               \<lparr>StepAnalysis_Name = ''compile'', StepAnalysis_Duration = 540000000000\<rparr>]\<rparr>]\<rparr>]
      ''linux'' 7) = 10 * RateLinux"
  "PerJob (CalculateCost srt
      [\<lparr>WorkflowAnalysis_Name = ''CI'',
        WorkflowAnalysis_Jobs =
          [\<lparr>JobAnalysis_Name = ''build'', JobAnalysis_Duration = 600000000000,
            JobAnalysis_Labels = [''ubuntu-latest''],
            JobAnalysis_Steps =
              [\<lparr>StepAnalysis_Name = ''checkout'', StepAnalysis_Duration = 60000000000\<rparr>,
               \<lparr>StepAnalysis_Name = ''compile'', StepAnalysis_Duration = 540000000000\<rparr>]\<rparr>]\<rparr>]
      ''linux'' 7) ''build'' = Some (10 * RateLinux)"
  "PerWorkflow (CalculateCost srt
      [\<lparr>WorkflowAnalysis_Name = ''CI'',
        WorkflowAnalysis_Jobs =
          [\<lparr>JobAnalysis_Name = ''build'', JobAnalysis_Duration = 600000000000,
            JobAnalysis_Labels = [''ubuntu-latest''],
            JobAnalysis_Steps =
              [\<lparr>StepAnalysis_Name = ''checkout'', StepAnalysis_Duration = 60000000000\<rparr>,
               \<lparr>StepAnalysis_Name = ''compile'', StepAnalysis_Duration = 540000000000\<rparr>]\<rparr>]\<rparr>]
      ''linux'' 7) ''CI'' = Some (10 * RateLinux)"
  "map Entry_Cost (PerStep (CalculateCost srt
      [\<lparr>WorkflowAnalysis_Name = ''CI'',
        WorkflowAnalysis_Jobs =
          [\<lparr>JobAnalysis_Name = ''build'', JobAnalysis_Duration = 600000000000,
            JobAnalysis_Labels = [''ubuntu-latest''],
            JobAnalysis_Steps =
              [\<lparr>StepAnalysis_Name = ''checkout'', StepAnalysis_Duration = 60000000000\<rparr>,
               \<lparr>StepAnalysis_Name = ''compile'', StepAnalysis_Duration = 540000000000\<rparr>]\<rparr>]\<rparr>]
      ''linux'' 7)) = [1 * RateLinux, 9 * RateLinux]"
  by (simp_all add: eval_simps)

lemma test_DefaultOSFallback:
  "TotalCost (CalculateCost srt
      [\<lparr>WorkflowAnalysis_Name = ''CI'',
        WorkflowAnalysis_Jobs =
          [\<lparr>JobAnalysis_Name = ''build'', JobAnalysis_Duration = 600000000000,
            JobAnalysis_Labels = [], JobAnalysis_Steps = []\<rparr>]\<rparr>]
      ''macos'' 1) = 10 * RateMacOS"
  "TotalCost (CalculateCost srt
      [\<lparr>WorkflowAnalysis_Name = ''CI'',
        WorkflowAnalysis_Jobs =
          [\<lparr>JobAnalysis_Name = ''build'', JobAnalysis_Duration = 600000000000,
            JobAnalysis_Labels = [], JobAnalysis_Steps = []\<rparr>]\<rparr>]
      ''windows'' 1) = 10 * RateWindows"
  by (simp_all add: eval_simps)

lemma test_AnalyzeCostCalculation:
  "Report_TotalCost (Analyze [] sort_stable
      [\<lparr>Job_Name = ''build'', Job_Workflow = ''CI'', Job_Conclusion = ''success'',
        Job_Labels = [''ubuntu-latest''], Job_StartedAt = 0, Job_CompletedAt = 600000000000,
        Job_Steps = []\<rparr>,
       \<lparr>Job_Name = ''test'', Job_Workflow = ''CI'', Job_Conclusion = ''success'',
        Job_Labels = [''macos-latest''], Job_StartedAt = 0, Job_CompletedAt = 300000000000,
        Job_Steps = []\<rparr>,
       \<lparr>Job_Name = ''lint'', Job_Workflow = ''Lint'', Job_Conclusion = ''success'',
        Job_Labels = [''windows-latest''], Job_StartedAt = 0, Job_CompletedAt = 120000000000,
        Job_Steps = []\<rparr>] 7) = 0.512"
  "TotalMinutes (Analyze [] sort_stable
      [\<lparr>Job_Name = ''build'', Job_Workflow = ''CI'', Job_Conclusion = ''success'',
        Job_Labels = [''ubuntu-latest''], Job_StartedAt = 0, Job_CompletedAt = 600000000000,
        Job_Steps = []\<rparr>,
       \<lparr>Job_Name = ''test'', Job_Workflow = ''CI'', Job_Conclusion = ''success'',
        Job_Labels = [''macos-latest''], Job_StartedAt = 0, Job_CompletedAt = 300000000000,
        Job_Steps = []\<rparr>,
       \<lparr>Job_Name = ''lint'', Job_Workflow = ''Lint'', Job_Conclusion = ''success'',
        Job_Labels = [''windows-latest''], Job_StartedAt = 0, Job_CompletedAt = 120000000000,
        Job_Steps = []\<rparr>] 7) = 17"
  by (simp_all add: Analyze_eval)

lemma test_AnalyzeWasteDetection:
  "map Waste_Type (Waste (Analyze ks srt
      [\<lparr>Job_Name = ''build'', Job_Workflow = ''CI'', Job_Conclusion = ''failure'',
        Job_Labels = [''ubuntu-latest''], Job_StartedAt = 0, Job_CompletedAt = 480000000000,
        Job_Steps =
          [\<lparr>Step_Name = ''Restore npm cache'', Step_Conclusion = ''failure'', Step_StartedAt = 0,
            Step_CompletedAt = 30000000000\<rparr>,
           \<lparr>Step_Name = ''npm install'', Step_Conclusion = ''success'', Step_StartedAt = 0,
            Step_CompletedAt = 300000000000\<rparr>]\<rparr>] 7)) =
     [''retry'', ''cache-miss'', ''slow-deps'']"
  by (simp add: Analyze_eval)

lemma test_GenerateRecommendations_Combined:
  "map RuleID (GenerateRecommendations [''npm install'', ''Checkout''] combined) =
     [''cache-miss'', ''cache-miss'', ''long-checkout'', ''duplicate-steps'', ''expensive-os'']"
proof -
  have a: "map RuleID (DetectCacheMiss combined) = [''cache-miss'', ''cache-miss'']"
    by (simp add: DetectCacheMiss_def combined_def cacheMiss_keywords_def Let_def Seconds_def
        Sub_def minDuration_def maxDuration_def lower_simps)
  have b: "map RuleID (DetectLongCheckout combined) = [''long-checkout'']"
    by (simp add: DetectLongCheckout_def combined_def Let_def Seconds_def Sub_def
        minDuration_def maxDuration_def lower_simps)
  have c: "map RuleID (DetectDuplicateSteps [''npm install'', ''Checkout''] combined) =
      [''duplicate-steps'']"
    by (simp add: DetectDuplicateSteps_def stepJobs_combined)
  have d: "map RuleID (DetectExpensiveOS combined) = [''expensive-os'']"
    by (simp add: DetectExpensiveOS_def combined_def Let_def Minutes_def Sub_def
        minDuration_def maxDuration_def lower_simps)
  show ?thesis by (simp add: GenerateRecommendations_def a b c d)
qed

lemma test_ExpensiveOS_savings:
  "map EstimatedMonthlySavings (DetectExpensiveOS
      \<lparr>Jobs = [\<lparr>Job_Name = ''test-mac'', Job_Workflow = ''CI'', Job_Conclusion = ''success'',
                 Job_Labels = [''macos-13''], Job_StartedAt = 0, Job_CompletedAt = 600000000000,
                 Job_Steps = []\<rparr>], Days = 30\<rparr>) = [0.72]"
  by (simp add: DetectExpensiveOS_def Let_def Minutes_def Sub_def minDuration_def
      maxDuration_def lower_simps monthlyScale_def)

lemma test_Fix_texts:
  "cacheMiss_Fix ''npm install'' 90 =
     ''Add actions/cache for step '' @ apostrophe @ ''npm install'' @ apostrophe @
     '' (took 90s). Caching dependencies can reduce this step by ~70%.''"
  "expensiveOS_Fix ''test-mac'' 10 =
     ''Job '' @ apostrophe @ ''test-mac'' @ apostrophe @
     '' runs on macOS for 10.0 min ($0.80/run). macOS runners cost 10x Linux. Move non-GUI tests to ubuntu-latest to save ~90%.''"
  by (simp_all add: cacheMiss_Fix_def expensiveOS_Fix_def fmt_f_def round_half_even_def
      fmt_nat.simps Let_def)

section \<open>Sums under rounding\<close>

lemma rounds_nonneg:
  assumes "rounds rnd u" and "0 \<le> x"
  shows "(1 - u) * x \<le> rnd x" and "rnd x \<le> (1 + u) * x" and "0 \<le> rnd x"
proof -
  have u: "0 \<le> u" "u < 1" and e: "\<bar>rnd x - x\<bar> \<le> u * \<bar>x\<bar>"
    using assms(1) by (simp_all add: rounds_def)
  have e': "\<bar>rnd x - x\<bar> \<le> u * x" using e assms(2) by simp
  show a: "(1 - u) * x \<le> rnd x" using e' by (simp add: algebra_simps abs_le_iff)
  show "rnd x \<le> (1 + u) * x" using e' by (simp add: algebra_simps abs_le_iff)
  have "0 \<le> (1 - u) * x" using u assms(2) by simp
  then show "0 \<le> rnd x" using a by linarith
qed

lemma rounds_zero: "rounds rnd u \<Longrightarrow> rnd 0 = 0"
  by (auto simp: rounds_def dest: spec [of _ 0])

lemma within_exact: "within_roundings u 0 x x"
  by (simp add: within_roundings_def)

lemma within_nonneg:
  assumes "0 \<le> u" "u < 1" "0 \<le> x" "within_roundings u n x v"
  shows "0 \<le> v"
proof -
  have "0 \<le> (1 - u) ^ n * x" using assms by simp
  then show ?thesis using assms(4) by (simp add: within_roundings_def)
qed

lemma within_mono:
  assumes u: "0 \<le> u" "u < 1" and x: "0 \<le> x" and ab: "a \<le> b"
    and w: "within_roundings u a x v"
  shows "within_roundings u b x v"
proof -
  have "(1 - u) ^ b \<le> (1 - u) ^ a" using u ab by (intro power_decreasing) simp_all
  then have l: "(1 - u) ^ b * x \<le> (1 - u) ^ a * x" using x by (rule mult_right_mono)
  have "(1 + u) ^ a \<le> (1 + u) ^ b" using u ab by (intro power_increasing) simp_all
  then have h: "(1 + u) ^ a * x \<le> (1 + u) ^ b * x" using x by (rule mult_right_mono)
  show ?thesis using w l h by (simp add: within_roundings_def)
qed

lemma within_add:
  assumes r: "rounds rnd u" and x: "0 \<le> x" and y: "0 \<le> y"
    and v: "within_roundings u a x v" and w: "within_roundings u a y w"
  shows "within_roundings u (Suc a) (x + y) (rnd (v + w))"
proof -
  have u: "0 \<le> u" "u < 1" using r by (simp_all add: rounds_def)
  have v0: "0 \<le> v" using u x v by (rule within_nonneg)
  have w0: "0 \<le> w" using u y w by (rule within_nonneg)
  have s0: "0 \<le> v + w" using v0 w0 by simp
  have lo: "(1 - u) ^ a * (x + y) \<le> v + w" and hi: "v + w \<le> (1 + u) ^ a * (x + y)"
    using v w by (simp_all add: within_roundings_def algebra_simps)
  have "(1 - u) * ((1 - u) ^ a * (x + y)) \<le> (1 - u) * (v + w)"
    using lo u by (intro mult_left_mono) simp_all
  also have "\<dots> \<le> rnd (v + w)" using r s0 by (rule rounds_nonneg)
  finally have l: "(1 - u) ^ Suc a * (x + y) \<le> rnd (v + w)" by (simp add: mult.assoc)
  have "rnd (v + w) \<le> (1 + u) * (v + w)" using r s0 by (rule rounds_nonneg)
  also have "\<dots> \<le> (1 + u) * ((1 + u) ^ a * (x + y))"
    using hi u by (intro mult_left_mono) simp_all
  finally have h: "rnd (v + w) \<le> (1 + u) ^ Suc a * (x + y)" by (simp add: mult.assoc)
  show ?thesis using l h by (simp add: within_roundings_def)
qed

lemma dom_add_at_rnd: "dom (add_at_rnd rnd m k v) = insert k (dom m)"
  by (simp add: add_at_rnd_def)

lemma sum_values_add_at_rnd:
  assumes "finite (dom m)"
  shows "sum_values (add_at_rnd rnd m k v) =
     sum_values m - (case m k of None \<Rightarrow> 0 | Some x \<Rightarrow> x) +
     rnd ((case m k of None \<Rightarrow> 0 | Some x \<Rightarrow> x) + v)"
proof -
  let ?m' = "add_at_rnd rnd m k v"
  let ?old = "case m k of None \<Rightarrow> 0 | Some x \<Rightarrow> x"
  have rest: "(\<Sum>x\<in>dom m - {k}. the (?m' x)) = (\<Sum>x\<in>dom m - {k}. the (m x))"
    by (rule sum.cong) (simp_all add: add_at_rnd_def)
  have "(\<Sum>x\<in>dom ?m'. the (?m' x)) = the (?m' k) + (\<Sum>x\<in>dom m - {k}. the (?m' x))"
    using assms by (simp add: dom_add_at_rnd sum.insert_remove)
  also have "\<dots> = rnd (?old + v) + (\<Sum>x\<in>dom m - {k}. the (m x))"
    by (simp add: rest) (simp add: add_at_rnd_def)
  finally have a: "sum_values ?m' = rnd (?old + v) + (\<Sum>x\<in>dom m - {k}. the (m x))"
    by (simp add: sum_values_def)
  have b: "(\<Sum>x\<in>dom m - {k}. the (m x)) = sum_values m - ?old"
  proof (cases "m k")
    case None
    then have "dom m - {k} = dom m" by auto
    then show ?thesis using None by (simp add: sum_values_def)
  next
    case (Some a)
    then have "k \<in> dom m" by auto
    then have "(\<Sum>x\<in>dom m. the (m x)) = the (m k) + (\<Sum>x\<in>dom m - {k}. the (m x))"
      using assms by (simp add: sum.remove)
    then show ?thesis using Some by (simp add: sum_values_def)
  qed
  show ?thesis using a b by simp
qed

text \<open>A map of numbers that are not negative, on finitely many keys.\<close>

lemma old_le_sum_values:
  assumes "finite (dom m)" and "\<forall>k\<in>dom m. 0 \<le> the (m k)"
  shows "0 \<le> (case m k of None \<Rightarrow> 0 | Some x \<Rightarrow> x)"
    and "(case m k of None \<Rightarrow> 0 | Some x \<Rightarrow> x) \<le> sum_values m"
proof -
  have nn: "0 \<le> sum_values m" using assms(2) by (simp add: sum_values_def sum_nonneg)
  show "0 \<le> (case m k of None \<Rightarrow> 0 | Some x \<Rightarrow> x)"
  proof (cases "m k")
    case None
    then show ?thesis by simp
  next
    case (Some a)
    then have "k \<in> dom m" by auto
    then have "0 \<le> the (m k)" using assms(2) by blast
    then show ?thesis using Some by simp
  qed
  show "(case m k of None \<Rightarrow> 0 | Some x \<Rightarrow> x) \<le> sum_values m"
  proof (cases "m k")
    case None
    then show ?thesis using nn by simp
  next
    case (Some a)
    then have k: "k \<in> dom m" by auto
    have "the (m k) \<le> (\<Sum>x\<in>dom m. the (m x))"
      using assms k by (intro member_le_sum) auto
    then show ?thesis using Some by (simp add: sum_values_def)
  qed
qed

lemma within_add_at:
  assumes r: "rounds rnd u" and x: "0 \<le> x" and y: "0 \<le> y"
    and fin: "finite (dom m)" and nn: "\<forall>k\<in>dom m. 0 \<le> the (m k)"
    and v: "within_roundings u a x (sum_values m)" and w: "within_roundings u a y w"
  shows "within_roundings u (Suc a) (x + y) (sum_values (add_at_rnd rnd m k w))"
    and "finite (dom (add_at_rnd rnd m k w))"
    and "\<forall>j\<in>dom (add_at_rnd rnd m k w). 0 \<le> the (add_at_rnd rnd m k w j)"
proof -
  have u: "0 \<le> u" "u < 1" using r by (simp_all add: rounds_def)
  let ?old = "case m k of None \<Rightarrow> 0 | Some x \<Rightarrow> x"
  let ?s = "sum_values m"
  have o0: "0 \<le> ?old" and os: "?old \<le> ?s" using fin nn by (rule old_le_sum_values)+
  have w0: "0 \<le> w" using u y w by (rule within_nonneg)
  have ow: "0 \<le> ?old + w" using o0 w0 by simp
  have eq: "sum_values (add_at_rnd rnd m k w) = ?s - ?old + rnd (?old + w)"
    using fin by (rule sum_values_add_at_rnd)
  have lo: "(1 - u) ^ a * (x + y) \<le> ?s + w" and hi: "?s + w \<le> (1 + u) ^ a * (x + y)"
    using v w by (simp_all add: within_roundings_def algebra_simps)
  have r1: "(1 - u) * (?old + w) \<le> rnd (?old + w)" and r2: "rnd (?old + w) \<le> (1 + u) * (?old + w)"
    using r ow by (rule rounds_nonneg)+
  have uo: "u * ?old \<le> u * ?s" using os u by (intro mult_left_mono) simp_all
  have "(1 - u) * (?s + w) \<le> ?s - ?old + (1 - u) * (?old + w)"
    using uo by (simp add: algebra_simps)
  then have l1: "(1 - u) * (?s + w) \<le> ?s - ?old + rnd (?old + w)" using r1 by linarith
  have "(1 - u) * ((1 - u) ^ a * (x + y)) \<le> (1 - u) * (?s + w)"
    using lo u by (intro mult_left_mono) simp_all
  then have l: "(1 - u) ^ Suc a * (x + y) \<le> ?s - ?old + rnd (?old + w)"
    using l1 by (simp add: mult.assoc)
  have "?s - ?old + (1 + u) * (?old + w) \<le> (1 + u) * (?s + w)"
    using uo by (simp add: algebra_simps)
  then have h1: "?s - ?old + rnd (?old + w) \<le> (1 + u) * (?s + w)" using r2 by linarith
  have "(1 + u) * (?s + w) \<le> (1 + u) * ((1 + u) ^ a * (x + y))"
    using hi u by (intro mult_left_mono) simp_all
  then have h: "?s - ?old + rnd (?old + w) \<le> (1 + u) ^ Suc a * (x + y)"
    using h1 by (simp add: mult.assoc)
  show "within_roundings u (Suc a) (x + y) (sum_values (add_at_rnd rnd m k w))"
    using l h by (simp add: eq within_roundings_def)
  show "finite (dom (add_at_rnd rnd m k w))" using fin by (simp add: dom_add_at_rnd)
  have "0 \<le> rnd (?old + w)" using r ow by (rule rounds_nonneg)
  then show "\<forall>j\<in>dom (add_at_rnd rnd m k w). 0 \<le> the (add_at_rnd rnd m k w j)"
    using nn by (auto simp: add_at_rnd_def)
qed

lemma resolveRate_pos: "0 < resolveRate labels defaultOS"
proof -
  have "0 < RunnerRate ls" for ls by (induction ls) (simp_all add: Let_def)
  then show ?thesis by (simp add: resolveRate_def rateForOS_def rate_defs Let_def)
qed

lemma jobCost_of_nonneg:
  assumes "rounds rnd u" and "included rnd job"
  shows "0 \<le> jobCost_of rnd defaultOS job"
proof -
  have "0 \<le> resolveRate (JobAnalysis_Labels job) defaultOS"
    using resolveRate_pos [of "JobAnalysis_Labels job" defaultOS] by simp
  then have "0 \<le> rnd (resolveRate (JobAnalysis_Labels job) defaultOS)"
    by (rule rounds_nonneg(3) [OF assms(1)])
  then have "0 \<le> Minutes_rnd rnd (JobAnalysis_Duration job) *
      rnd (resolveRate (JobAnalysis_Labels job) defaultOS)"
    using assms(2) by (simp add: included_def)
  then show ?thesis
    unfolding jobCost_of_def by (rule rounds_nonneg(3) [OF assms(1)])
qed

lemma sum_list_jobCost_nonneg:
  assumes "rounds rnd u"
  shows "0 \<le> sum_list (map (jobCost_of rnd defaultOS) (filter (included rnd) jobs))"
  using jobCost_of_nonneg [OF assms] by (intro sum_list_nonneg) auto

text \<open>
  The loop over the jobs of one workflow: each job it does not skip adds one rounding to
  the sum of the per-job map and one to the workflow's cost.
\<close>

lemma CalculateCost_rnd_jobs_within:
  assumes r: "rounds rnd u"
  shows "finite (dom perJob) \<Longrightarrow> \<forall>k\<in>dom perJob. 0 \<le> the (perJob k) \<Longrightarrow>
    0 \<le> x \<Longrightarrow> 0 \<le> y \<Longrightarrow>
    within_roundings u a x (sum_values perJob) \<Longrightarrow> within_roundings u b y wfCost \<Longrightarrow>
    CalculateCost_rnd_jobs rnd defaultOS wfName jobs (perJob, wfCost, allSteps) =
      (perJob', wfCost', allSteps') \<Longrightarrow>
    cs = map (jobCost_of rnd defaultOS) (filter (included rnd) jobs) \<Longrightarrow>
    finite (dom perJob') \<and> (\<forall>k\<in>dom perJob'. 0 \<le> the (perJob' k)) \<and>
    within_roundings u (a + length cs) (x + sum_list cs) (sum_values perJob') \<and>
    within_roundings u (b + length cs) (y + sum_list cs) wfCost'"
proof (induction jobs arbitrary: perJob wfCost allSteps a b x y cs)
  case Nil
  then show ?case by simp
next
  case (Cons job jobs)
  have u: "0 \<le> u" "u < 1" using r by (simp_all add: rounds_def)
  let ?rest = "map (jobCost_of rnd defaultOS) (filter (included rnd) jobs)"
  show ?case
  proof (cases "included rnd job")
    case False
    then have skip: "Minutes_rnd rnd (JobAnalysis_Duration job) \<le> 0"
      by (simp add: included_def)
    have run: "CalculateCost_rnd_jobs rnd defaultOS wfName jobs (perJob, wfCost, allSteps) =
      (perJob', wfCost', allSteps')"
      using Cons.prems(7) skip by (simp add: Let_def)
    have cs: "cs = ?rest" using Cons.prems(8) False by simp
    show ?thesis
      by (rule Cons.IH [OF Cons.prems(1-6) run cs])
  next
    case True
    let ?c = "jobCost_of rnd defaultOS job"
    have c0: "0 \<le> ?c" using r True by (rule jobCost_of_nonneg)
    have cs: "cs = ?c # ?rest" using Cons.prems(8) True by simp
    have go: "\<not> Minutes_rnd rnd (JobAnalysis_Duration job) \<le> 0"
      using True by (simp add: included_def)
    let ?pj = "add_at_rnd rnd perJob (JobAnalysis_Name job) ?c"
    have run: "CalculateCost_rnd_jobs rnd defaultOS wfName jobs
        (?pj, rnd (wfCost + ?c),
         CalculateCost_rnd_steps rnd wfName (JobAnalysis_Name job)
           (rnd (resolveRate (JobAnalysis_Labels job) defaultOS)) (JobAnalysis_Steps job)
           allSteps) = (perJob', wfCost', allSteps')"
      using Cons.prems(7) go by (simp add: Let_def jobCost_of_def)
    have ca: "within_roundings u a ?c ?c"
      by (rule within_mono [OF u c0 _ within_exact]) simp
    have cb: "within_roundings u b ?c ?c"
      by (rule within_mono [OF u c0 _ within_exact]) simp
    note A = within_add_at [OF r Cons.prems(3) c0 Cons.prems(1) Cons.prems(2) Cons.prems(5) ca,
        of "JobAnalysis_Name job"]
    have B: "within_roundings u (Suc b) (y + ?c) (rnd (wfCost + ?c))"
      by (rule within_add [OF r Cons.prems(4) c0 Cons.prems(6) cb])
    have x': "0 \<le> x + ?c" and y': "0 \<le> y + ?c" using Cons.prems(3,4) c0 by simp_all
    have ih: "finite (dom perJob') \<and> (\<forall>k\<in>dom perJob'. 0 \<le> the (perJob' k)) \<and>
      within_roundings u (Suc a + length ?rest) (x + ?c + sum_list ?rest) (sum_values perJob') \<and>
      within_roundings u (Suc b + length ?rest) (y + ?c + sum_list ?rest) wfCost'"
      by (rule Cons.IH [OF A(2) A(3) x' y' A(1) B run refl])
    have n1: "a + length cs = Suc a + length ?rest" and n2: "b + length cs = Suc b + length ?rest"
      by (simp_all add: cs)
    have s1: "x + sum_list cs = x + ?c + sum_list ?rest" and s2: "y + sum_list cs = y + ?c + sum_list ?rest"
      by (simp_all add: cs)
    show ?thesis unfolding n1 n2 s1 s2 by (rule ih)
  qed
qed

lemma jobCosts_Cons:
  "jobCosts rnd defaultOS (w # ws) =
     map (jobCost_of rnd defaultOS) (filter (included rnd) (WorkflowAnalysis_Jobs w)) @
     jobCosts rnd defaultOS ws"
  by (simp add: jobCosts_def)

lemma jobCosts_nonneg:
  assumes "rounds rnd u"
  shows "0 \<le> sum_list (jobCosts rnd defaultOS ws)"
  unfolding jobCosts_def by (rule sum_list_jobCost_nonneg [OF assms])

text \<open>
  The loop over the workflows: the sum of the per-job map is within one rounding for each
  job, the sum of the per-workflow map and the total within one more for each workflow.
\<close>

lemma CalculateCost_rnd_workflows_within:
  assumes r: "rounds rnd u"
  shows "finite (dom (PerJob report)) \<Longrightarrow> \<forall>k\<in>dom (PerJob report). 0 \<le> the (PerJob report k) \<Longrightarrow>
    finite (dom (PerWorkflow report)) \<Longrightarrow>
    \<forall>k\<in>dom (PerWorkflow report). 0 \<le> the (PerWorkflow report k) \<Longrightarrow>
    0 \<le> x \<Longrightarrow>
    within_roundings u a x (sum_values (PerJob report)) \<Longrightarrow>
    within_roundings u t x (sum_values (PerWorkflow report)) \<Longrightarrow>
    within_roundings u t x (TotalCost report) \<Longrightarrow>
    CalculateCost_rnd_workflows rnd defaultOS ws (report, allSteps) = (report', allSteps') \<Longrightarrow>
    within_roundings u (a + length (jobCosts rnd defaultOS ws))
      (x + sum_list (jobCosts rnd defaultOS ws)) (sum_values (PerJob report')) \<and>
    within_roundings u (t + length (jobCosts rnd defaultOS ws) + length ws)
      (x + sum_list (jobCosts rnd defaultOS ws)) (sum_values (PerWorkflow report')) \<and>
    within_roundings u (t + length (jobCosts rnd defaultOS ws) + length ws)
      (x + sum_list (jobCosts rnd defaultOS ws)) (TotalCost report')"
proof (induction ws arbitrary: report allSteps a t x)
  case Nil
  then show ?case by (simp add: jobCosts_def)
next
  case (Cons w ws)
  have u: "0 \<le> u" "u < 1" using r by (simp_all add: rounds_def)
  let ?cs = "map (jobCost_of rnd defaultOS) (filter (included rnd) (WorkflowAnalysis_Jobs w))"
  let ?rest = "jobCosts rnd defaultOS ws"
  let ?k = "length ?cs" and ?y = "sum_list ?cs"
  have y0: "0 \<le> ?y" by (rule sum_list_jobCost_nonneg [OF r])
  obtain perJob wfCost all1 where
    jobs: "CalculateCost_rnd_jobs rnd defaultOS (WorkflowAnalysis_Name w) (WorkflowAnalysis_Jobs w)
             (PerJob report, 0, allSteps) = (perJob, wfCost, all1)"
    by (cases "CalculateCost_rnd_jobs rnd defaultOS (WorkflowAnalysis_Name w)
        (WorkflowAnalysis_Jobs w) (PerJob report, 0, allSteps)") auto
  have z: "within_roundings u 0 0 0" by (simp add: within_roundings_def)
  have z0: "(0::real) \<le> 0" by simp
  have J: "finite (dom perJob) \<and> (\<forall>k\<in>dom perJob. 0 \<le> the (perJob k)) \<and>
      within_roundings u (a + ?k) (x + ?y) (sum_values perJob) \<and>
      within_roundings u (0 + ?k) (0 + ?y) wfCost"
    by (rule CalculateCost_rnd_jobs_within [OF r Cons.prems(1) Cons.prems(2) Cons.prems(5) z0
          Cons.prems(6) z jobs refl])
  then have finJ: "finite (dom perJob)" and nnJ: "\<forall>k\<in>dom perJob. 0 \<le> the (perJob k)"
    and wJ: "within_roundings u (a + ?k) (x + ?y) (sum_values perJob)"
    and wC: "within_roundings u ?k ?y wfCost"
    by simp_all
  let ?r = "report\<lparr>PerJob := perJob,
                    PerWorkflow := add_at_rnd rnd (PerWorkflow report) (WorkflowAnalysis_Name w) wfCost,
                    TotalCost := rnd (TotalCost report + wfCost)\<rparr>"
  have run: "CalculateCost_rnd_workflows rnd defaultOS ws (?r, all1) = (report', allSteps')"
    using Cons.prems(9) jobs by simp
  have wC': "within_roundings u (t + ?k) ?y wfCost"
    by (rule within_mono [OF u y0 _ wC]) simp
  have wW: "within_roundings u (t + ?k) x (sum_values (PerWorkflow report))"
    by (rule within_mono [OF u Cons.prems(5) _ Cons.prems(7)]) simp
  have wT: "within_roundings u (t + ?k) x (TotalCost report)"
    by (rule within_mono [OF u Cons.prems(5) _ Cons.prems(8)]) simp
  note W = within_add_at [OF r Cons.prems(5) y0 Cons.prems(3) Cons.prems(4) wW wC',
      of "WorkflowAnalysis_Name w"]
  have T: "within_roundings u (Suc (t + ?k)) (x + ?y) (rnd (TotalCost report + wfCost))"
    by (rule within_add [OF r Cons.prems(5) y0 wT wC'])
  have xy: "0 \<le> x + ?y" using Cons.prems(5) y0 by simp
  have p1: "finite (dom (PerJob ?r))" using finJ by simp
  have p2: "\<forall>k\<in>dom (PerJob ?r). 0 \<le> the (PerJob ?r k)" using nnJ by simp
  have p3: "finite (dom (PerWorkflow ?r))" using W(2) by simp
  have p4: "\<forall>k\<in>dom (PerWorkflow ?r). 0 \<le> the (PerWorkflow ?r k)" using W(3) by simp
  have p6: "within_roundings u (a + ?k) (x + ?y) (sum_values (PerJob ?r))" using wJ by simp
  have p7: "within_roundings u (Suc (t + ?k)) (x + ?y) (sum_values (PerWorkflow ?r))"
    using W(1) by simp
  have p8: "within_roundings u (Suc (t + ?k)) (x + ?y) (TotalCost ?r)" using T by simp
  have ih: "within_roundings u (a + ?k + length ?rest) (x + ?y + sum_list ?rest)
        (sum_values (PerJob report')) \<and>
      within_roundings u (Suc (t + ?k) + length ?rest + length ws) (x + ?y + sum_list ?rest)
        (sum_values (PerWorkflow report')) \<and>
      within_roundings u (Suc (t + ?k) + length ?rest + length ws) (x + ?y + sum_list ?rest)
        (TotalCost report')"
    by (rule Cons.IH [OF p1 p2 p3 p4 xy p6 p7 p8 run])
  have n1: "a + length (jobCosts rnd defaultOS (w # ws)) = a + ?k + length ?rest"
    and n2: "t + length (jobCosts rnd defaultOS (w # ws)) + length (w # ws) =
        Suc (t + ?k) + length ?rest + length ws"
    and s1: "x + sum_list (jobCosts rnd defaultOS (w # ws)) = x + ?y + sum_list ?rest"
    by (simp_all add: jobCosts_Cons)
  show ?case unfolding n1 n2 s1 by (rule ih)
qed

lemma round_half_even_error: "\<bar>real_of_int (round_half_even q) - q\<bar> \<le> 1 / 2"
proof -
  have "real_of_int \<lfloor>q\<rfloor> \<le> q" and "q < real_of_int \<lfloor>q\<rfloor> + 1" by linarith+
  then show ?thesis by (auto simp: round_half_even_def Let_def abs_le_iff)
qed

lemma binary64_rounds: "rounds binary64 (1 / 2 ^ 53)"
proof -
  have "\<bar>binary64 x - x\<bar> \<le> 1 / 2 ^ 53 * \<bar>x\<bar>" for x
  proof (cases "x = 0")
    case True
    then show ?thesis by (simp add: binary64_def)
  next
    case False
    define e where "e = \<lfloor>log 2 \<bar>x\<bar>\<rfloor>"
    define ulp :: real where "ulp = 2 powr (real_of_int e - 52)"
    have ulp0: "0 < ulp" by (simp add: ulp_def)
    have b: "binary64 x = real_of_int (round_half_even (x / ulp)) * ulp"
      using False by (simp add: binary64_def Let_def e_def ulp_def)
    have "binary64 x - x = (real_of_int (round_half_even (x / ulp)) - x / ulp) * ulp"
      using ulp0 by (simp add: b algebra_simps)
    then have "\<bar>binary64 x - x\<bar> = \<bar>real_of_int (round_half_even (x / ulp)) - x / ulp\<bar> * ulp"
      using ulp0 by (simp add: abs_mult)
    also have "\<dots> \<le> 1 / 2 * ulp"
      using round_half_even_error [of "x / ulp"] ulp0 by (intro mult_right_mono) simp_all
    also have "\<dots> = 1 / 2 ^ 53 * 2 powr (real_of_int e)"
      by (simp add: ulp_def powr_diff)
    also have "\<dots> \<le> 1 / 2 ^ 53 * \<bar>x\<bar>"
    proof -
      have "real_of_int e \<le> log 2 \<bar>x\<bar>" by (simp add: e_def)
      then have "2 powr (real_of_int e) \<le> \<bar>x\<bar>" using False by (simp add: le_log_iff)
      then show ?thesis by (intro mult_left_mono) simp_all
    qed
    finally show ?thesis .
  qed
  then show ?thesis by (simp add: rounds_def)
qed

text \<open>
  The rounding of a positive number by its scaled significand: when \<open>x * 2^s\<close> lies between
  \<open>2^52\<close> and \<open>2^53\<close>, the unit in the last place of \<open>x\<close> is \<open>1 / 2^s\<close>.
\<close>

lemma binary64_scaled:
  assumes lo: "2 ^ 52 \<le> x * 2 ^ s" and hi: "x * 2 ^ s < 2 ^ 53"
  shows "binary64 x = real_of_int (round_half_even (x * 2 ^ s)) / 2 ^ s"
proof -
  have "(0::real) < 2 ^ 52" by simp
  then have "0 < x * 2 ^ s" using lo by linarith
  then have x0: "0 < x" by (simp add: zero_less_mult_iff)
  have p: "2 powr (52 - real s) = 2 ^ 52 / 2 ^ s"
    by (simp add: powr_diff powr_realpow)
  have q: "2 powr (53 - real s) = 2 ^ 53 / 2 ^ s"
    by (simp add: powr_diff powr_realpow)
  have l1: "2 powr (52 - real s) \<le> x" unfolding p using lo by (simp add: field_simps)
  have l2: "x < 2 powr (53 - real s)" unfolding q using hi by (simp add: field_simps)
  have "52 - real s \<le> log 2 x" using l1 x0 by (simp add: le_log_iff)
  moreover have "log 2 x < 53 - real s" using l2 x0 by (simp add: log_less_iff)
  ultimately have e: "\<lfloor>log 2 x\<rfloor> = 52 - int s"
    by (intro floor_unique) simp_all
  have ax: "\<bar>x\<bar> = x" using x0 by simp
  have ulp: "2 powr (real_of_int \<lfloor>log 2 \<bar>x\<bar>\<rfloor> - 52) = 1 / 2 ^ s"
    unfolding ax e by (simp add: powr_minus powr_realpow divide_inverse)
  have "binary64 x = real_of_int (round_half_even (x / (1 / 2 ^ s))) * (1 / 2 ^ s)"
    using x0 unfolding binary64_def Let_def ulp by simp
  then show ?thesis by simp
qed

lemma binary64_0: "binary64 0 = 0"
  by (simp add: binary64_def)

lemma binary64_1: "binary64 1 = 1"
  using binary64_scaled [of 1 52] by (simp add: round_half_even_def)

lemma binary64_2: "binary64 2 = 2"
  using binary64_scaled [of 2 51] by (simp add: round_half_even_def)

text \<open>The float64 values of the example.\<close>

lemma binary64_RateLinux: "binary64 RateLinux = 4611686018427388 / 2 ^ 59"
  using binary64_scaled [of RateLinux 59] by (simp add: RateLinux_def round_half_even_def)

lemma binary64_RateMacOS: "binary64 RateMacOS = 5764607523034235 / 2 ^ 56"
  using binary64_scaled [of RateMacOS 56] by (simp add: RateMacOS_def round_half_even_def)

lemma binary64_A: "binary64 (4611686018427388 / 2 ^ 59) = 4611686018427388 / 2 ^ 59"
  using binary64_scaled [of "4611686018427388 / 2 ^ 59" 59] by (simp add: round_half_even_def)

lemma binary64_C: "binary64 (5764607523034235 / 2 ^ 56) = 5764607523034235 / 2 ^ 56"
  using binary64_scaled [of "5764607523034235 / 2 ^ 56" 56] by (simp add: round_half_even_def)

lemma binary64_2A: "binary64 (2 * (4611686018427388 / 2 ^ 59)) = 4611686018427388 / 2 ^ 58"
  using binary64_scaled [of "2 * (4611686018427388 / 2 ^ 59)" 58]
  by (simp add: round_half_even_def)

lemma binary64_A2: "binary64 (4611686018427388 / 2 ^ 58) = 4611686018427388 / 2 ^ 58"
  using binary64_scaled [of "4611686018427388 / 2 ^ 58" 58] by (simp add: round_half_even_def)

lemma binary64_A_C:
  "binary64 (4611686018427388 / 2 ^ 59 + 5764607523034235 / 2 ^ 56) =
     6341068275337658 / 2 ^ 56"
  using binary64_scaled [of "4611686018427388 / 2 ^ 59 + 5764607523034235 / 2 ^ 56" 56]
  by (simp add: round_half_even_def)

lemma binary64_AC_A2:
  "binary64 (6341068275337658 / 2 ^ 56 + 4611686018427388 / 2 ^ 58) =
     7493989779944505 / 2 ^ 56"
  using binary64_scaled [of "6341068275337658 / 2 ^ 56 + 4611686018427388 / 2 ^ 58" 56]
  by (simp add: round_half_even_def)

lemma binary64_A_A2:
  "binary64 (4611686018427388 / 2 ^ 59 + 4611686018427388 / 2 ^ 58) =
     6917529027641082 / 2 ^ 58"
  using binary64_scaled [of "4611686018427388 / 2 ^ 59 + 4611686018427388 / 2 ^ 58" 58]
  by (simp add: round_half_even_def)

lemma binary64_PX_C:
  "binary64 (6917529027641082 / 2 ^ 58 + 5764607523034235 / 2 ^ 56) =
     7493989779944506 / 2 ^ 56"
  using binary64_scaled [of "6917529027641082 / 2 ^ 58 + 5764607523034235 / 2 ^ 56" 56]
  by (simp add: round_half_even_def)

text \<open>The run on the example, for a rounding function that keeps 0, 1 and 2.\<close>

lemma three_runs_report:
  assumes "rnd 0 = 0" and "rnd 1 = 1" and "rnd 2 = 2"
  shows "TotalCost (CalculateCost_rnd rnd srt three_runs ''linux'' d) =
           rnd (rnd (rnd (rnd (rnd (rnd RateLinux))) + rnd (rnd (rnd RateMacOS))) +
                rnd (rnd (2 * rnd RateLinux)))"
    and "PerJob (CalculateCost_rnd rnd srt three_runs ''linux'' d) ''build'' =
           Some (rnd (rnd (rnd (rnd RateLinux)) + rnd (2 * rnd RateLinux)))"
    and "PerJob (CalculateCost_rnd rnd srt three_runs ''linux'' d) ''ios'' =
           Some (rnd (rnd (rnd RateMacOS)))"
    and "dom (PerJob (CalculateCost_rnd rnd srt three_runs ''linux'' d)) = {''build'', ''ios''}"
    and "PerWorkflow (CalculateCost_rnd rnd srt three_runs ''linux'' d) ''CI'' =
           Some (rnd (rnd (rnd (rnd (rnd RateLinux))) + rnd (rnd (2 * rnd RateLinux))))"
    and "PerWorkflow (CalculateCost_rnd rnd srt three_runs ''linux'' d) ''Nightly'' =
           Some (rnd (rnd (rnd (rnd RateMacOS))))"
    and "dom (PerWorkflow (CalculateCost_rnd rnd srt three_runs ''linux'' d)) =
           {''CI'', ''Nightly''}"
    and "jobCosts rnd ''linux'' three_runs =
           [rnd (rnd RateLinux), rnd (rnd RateMacOS), rnd (2 * rnd RateLinux)]"
  using assms
  by (simp_all add: CalculateCost_rnd_def three_runs_def Let_def Minutes_rnd_def quo_def
      remainder_def add_at_rnd_def resolveRate_def rateForOS_def lower_simps jobCosts_def
      jobCost_of_def included_def insert_commute rate_defs)

text \<open>
  With the identity for the rounding, the model with rounding is the model in exact
  numbers.
\<close>

lemma Minutes_rnd_identity: "Minutes_rnd (\<lambda>x. x) d = Minutes d"
  by (simp add: Minutes_rnd_def Minutes_def remainder_def Let_def field_simps)

lemma add_at_rnd_identity: "add_at_rnd (\<lambda>x. x) m k v = add_at m k v"
  by (simp add: add_at_rnd_def add_at_def)

lemma CalculateCost_rnd_steps_identity:
  "CalculateCost_rnd_steps (\<lambda>x. x) wfName jobName rate steps allSteps =
     CalculateCost_steps wfName jobName rate steps allSteps"
  by (induction steps arbitrary: allSteps) (simp_all add: Minutes_rnd_identity Let_def)

lemma CalculateCost_rnd_jobs_identity:
  "CalculateCost_rnd_jobs (\<lambda>x. x) defaultOS wfName jobs (perJob, wfCost, allSteps) =
     CalculateCost_jobs defaultOS wfName jobs (perJob, wfCost, allSteps)"
  by (induction jobs arbitrary: perJob wfCost allSteps)
    (simp_all add: Minutes_rnd_identity add_at_rnd_identity CalculateCost_rnd_steps_identity
      Let_def)

lemma CalculateCost_rnd_workflows_identity:
  "CalculateCost_rnd_workflows (\<lambda>x. x) defaultOS ws (report, allSteps) =
     CalculateCost_workflows defaultOS ws (report, allSteps)"
  by (induction ws arbitrary: report allSteps)
    (simp_all add: CalculateCost_rnd_jobs_identity add_at_rnd_identity split: prod.splits)

lemma CalculateCost_rnd_identity:
  "CalculateCost_rnd (\<lambda>x. x) srt analyses defaultOS d = CalculateCost srt analyses defaultOS d"
  by (simp add: CalculateCost_rnd_def CalculateCost_def CalculateCost_rnd_workflows_identity)

lemma CalculateCost_rnd_fields:
  assumes "CalculateCost_rnd_workflows rnd defaultOS analyses
     (\<lparr>PerStep = [], PerJob = Map.empty, PerWorkflow = Map.empty, TotalCost = 0,
       ProjectedCost30 = 0, TopSteps = []\<rparr>, []) = (report, allSteps)"
  shows "PerJob (CalculateCost_rnd rnd srt analyses defaultOS d) = PerJob report"
    and "PerWorkflow (CalculateCost_rnd rnd srt analyses defaultOS d) = PerWorkflow report"
    and "TotalCost (CalculateCost_rnd rnd srt analyses defaultOS d) = TotalCost report"
  using assms by (simp_all add: CalculateCost_rnd_def Let_def)

lemma within_diff:
  assumes "within_roundings u n x v" and "within_roundings u n x w"
  shows "\<bar>v - w\<bar> \<le> ((1 + u) ^ n - (1 - u) ^ n) * x"
  using assms unfolding within_roundings_def left_diff_distrib by linarith

text \<open>Without rounding, a value within any number of roundings of another is that value.\<close>

lemma within_no_rounding: "within_roundings 0 n x v \<longleftrightarrow> v = x"
  by (auto simp: within_roundings_def)

lemma rounds_identity: "rounds (\<lambda>x. x) 0"
  by (simp add: rounds_def)

text \<open>
  C5, as the code has it. The three totals are sums of the same job costs, added in
  float64 in three different groupings, so they agree up to rounding and not exactly. For
  every rounding function of relative error at most \<open>u\<close>: let \<open>S\<close> be the exact sum of the
  costs of the jobs that are not skipped, \<open>j\<close> their number and \<open>w\<close> the number of workflows.
  Then the total cost and the sum of the values of the per-workflow map lie within \<open>j + w\<close>
  roundings of \<open>S\<close>, the sum of the values of the per-job map within \<open>j\<close> roundings of \<open>S\<close>,
  and the total cost differs from each of the two sums by at most
  \<open>((1 + u)^(j + w) - (1 - u)^(j + w)) * S\<close>. With \<open>u = 0\<close>, computing in exact numbers, the
  three are equal.
\<close>

theorem totals_agree_up_to_rounding:
  assumes "rounds rnd u"
  shows
    "within_roundings u (length (jobCosts rnd defaultOS analyses) + length analyses)
       (sum_list (jobCosts rnd defaultOS analyses))
       (TotalCost (CalculateCost_rnd rnd srt analyses defaultOS d))
     \<and> within_roundings u (length (jobCosts rnd defaultOS analyses) + length analyses)
       (sum_list (jobCosts rnd defaultOS analyses))
       (sum_values (PerWorkflow (CalculateCost_rnd rnd srt analyses defaultOS d)))
     \<and> within_roundings u (length (jobCosts rnd defaultOS analyses))
       (sum_list (jobCosts rnd defaultOS analyses))
       (sum_values (PerJob (CalculateCost_rnd rnd srt analyses defaultOS d)))
     \<and> \<bar>TotalCost (CalculateCost_rnd rnd srt analyses defaultOS d) -
          sum_values (PerWorkflow (CalculateCost_rnd rnd srt analyses defaultOS d))\<bar>
        \<le> ((1 + u) ^ (length (jobCosts rnd defaultOS analyses) + length analyses) -
            (1 - u) ^ (length (jobCosts rnd defaultOS analyses) + length analyses)) *
           sum_list (jobCosts rnd defaultOS analyses)
     \<and> \<bar>TotalCost (CalculateCost_rnd rnd srt analyses defaultOS d) -
          sum_values (PerJob (CalculateCost_rnd rnd srt analyses defaultOS d))\<bar>
        \<le> ((1 + u) ^ (length (jobCosts rnd defaultOS analyses) + length analyses) -
            (1 - u) ^ (length (jobCosts rnd defaultOS analyses) + length analyses)) *
           sum_list (jobCosts rnd defaultOS analyses)"
proof -
  let ?cs = "jobCosts rnd defaultOS analyses"
  let ?n = "length ?cs + length analyses"
  let ?r = "CalculateCost_rnd rnd srt analyses defaultOS d"
  let ?init = "\<lparr>PerStep = [], PerJob = Map.empty, PerWorkflow = Map.empty, TotalCost = 0,
       ProjectedCost30 = 0, TopSteps = []\<rparr>"
  have u: "0 \<le> u" "u < 1" using assms by (simp_all add: rounds_def)
  have S0: "0 \<le> sum_list ?cs" by (rule jobCosts_nonneg [OF assms])
  obtain report allSteps where
    run: "CalculateCost_rnd_workflows rnd defaultOS analyses (?init, []) = (report, allSteps)"
    by (cases "CalculateCost_rnd_workflows rnd defaultOS analyses (?init, [])") auto
  have i1: "finite (dom (PerJob ?init))" by simp
  have i2: "\<forall>k\<in>dom (PerJob ?init). 0 \<le> the (PerJob ?init k)" by simp
  have i3: "finite (dom (PerWorkflow ?init))" by simp
  have i4: "\<forall>k\<in>dom (PerWorkflow ?init). 0 \<le> the (PerWorkflow ?init k)" by simp
  have i5: "(0::real) \<le> 0" by simp
  have i6: "within_roundings u 0 0 (sum_values (PerJob ?init))"
    by (simp add: within_roundings_def sum_values_def)
  have i7: "within_roundings u 0 0 (sum_values (PerWorkflow ?init))"
    by (simp add: within_roundings_def sum_values_def)
  have i8: "within_roundings u 0 0 (TotalCost ?init)"
    by (simp add: within_roundings_def)
  have loop: "within_roundings u (0 + length ?cs) (0 + sum_list ?cs) (sum_values (PerJob report)) \<and>
      within_roundings u (0 + length ?cs + length analyses) (0 + sum_list ?cs)
        (sum_values (PerWorkflow report)) \<and>
      within_roundings u (0 + length ?cs + length analyses) (0 + sum_list ?cs)
        (TotalCost report)"
    by (rule CalculateCost_rnd_workflows_within [OF assms i1 i2 i3 i4 i5 i6 i7 i8 run])
  have T: "within_roundings u ?n (sum_list ?cs) (TotalCost ?r)"
    using loop by (simp add: CalculateCost_rnd_fields [OF run])
  have W: "within_roundings u ?n (sum_list ?cs) (sum_values (PerWorkflow ?r))"
    using loop by (simp add: CalculateCost_rnd_fields [OF run])
  have J: "within_roundings u (length ?cs) (sum_list ?cs) (sum_values (PerJob ?r))"
    using loop by (simp add: CalculateCost_rnd_fields [OF run])
  have J': "within_roundings u ?n (sum_list ?cs) (sum_values (PerJob ?r))"
    by (rule within_mono [OF u S0 _ J]) simp
  have d1: "\<bar>TotalCost ?r - sum_values (PerWorkflow ?r)\<bar> \<le> ((1 + u) ^ ?n - (1 - u) ^ ?n) * sum_list ?cs"
    using T W by (rule within_diff)
  have d2: "\<bar>TotalCost ?r - sum_values (PerJob ?r)\<bar> \<le> ((1 + u) ^ ?n - (1 - u) ^ ?n) * sum_list ?cs"
    using T J' by (rule within_diff)
  show ?thesis using T W J d1 d2 by blast
qed

theorem totals_agree_up_to_rounding_witness:
  "rounds binary64 (1 / 2 ^ 53)
   \<and> jobCosts binary64 ''linux'' three_runs =
       [4611686018427388 / 2 ^ 59, 5764607523034235 / 2 ^ 56, 4611686018427388 / 2 ^ 58]
   \<and> within_roundings (1 / 2 ^ 53) 6 (sum_list (jobCosts binary64 ''linux'' three_runs))
       (TotalCost (CalculateCost_rnd binary64 sort_stable three_runs ''linux'' 7))
   \<and> within_roundings (1 / 2 ^ 53) 6 (sum_list (jobCosts binary64 ''linux'' three_runs))
       (sum_values (PerWorkflow (CalculateCost_rnd binary64 sort_stable three_runs ''linux'' 7)))
   \<and> within_roundings (1 / 2 ^ 53) 3 (sum_list (jobCosts binary64 ''linux'' three_runs))
       (sum_values (PerJob (CalculateCost_rnd binary64 sort_stable three_runs ''linux'' 7)))
   \<and> \<bar>TotalCost (CalculateCost_rnd binary64 sort_stable three_runs ''linux'' 7) -
        sum_values (PerWorkflow (CalculateCost_rnd binary64 sort_stable three_runs ''linux'' 7))\<bar>
      \<le> ((1 + 1 / 2 ^ 53) ^ 6 - (1 - 1 / 2 ^ 53) ^ 6) *
         sum_list (jobCosts binary64 ''linux'' three_runs)
   \<and> \<bar>TotalCost (CalculateCost_rnd binary64 sort_stable three_runs ''linux'' 7) -
        sum_values (PerJob (CalculateCost_rnd binary64 sort_stable three_runs ''linux'' 7))\<bar>
      \<le> ((1 + 1 / 2 ^ 53) ^ 6 - (1 - 1 / 2 ^ 53) ^ 6) *
         sum_list (jobCosts binary64 ''linux'' three_runs)"
proof -
  have jc: "jobCosts binary64 ''linux'' three_runs =
      [4611686018427388 / 2 ^ 59, 5764607523034235 / 2 ^ 56, 4611686018427388 / 2 ^ 58]"
    unfolding three_runs_report(8) [OF binary64_0 binary64_1 binary64_2]
      binary64_RateLinux binary64_RateMacOS binary64_A binary64_C binary64_2A
    by (rule refl)
  have j: "length (jobCosts binary64 ''linux'' three_runs) = 3"
    unfolding jc by simp
  have m: "length three_runs = 3" by (simp add: three_runs_def)
  have s: "(3::nat) + 3 = 6" by simp
  note t = totals_agree_up_to_rounding [OF binary64_rounds, of "''linux''" three_runs
      sort_stable 7, unfolded j m s]
  show ?thesis using binary64_rounds jc t by blast
qed

text \<open>
  C5 as stated fails in float64. Take the runs "CI" with a job "build" of one minute on
  "ubuntu-latest", "Nightly" with a job "ios" of one minute on "macos-13", and "CI" again
  with "build" of two minutes. The total cost is \<open>(0.008 + 0.08) + 0.016\<close>, which float64
  rounds to \<open>7493989779944505 / 2^56\<close>, printed 0.104. The per-job map holds
  \<open>0.008 + 0.016\<close> for "build" and \<open>0.08\<close> for "ios", and the per-workflow map the same two
  numbers for "CI" and "Nightly". Their sum is not the total cost, neither as an exact
  number nor added in float64, in either order: that sum is \<open>7493989779944506 / 2^56\<close>,
  printed 0.10400000000000001.
\<close>

theorem rounded_totals_differ:
  "TotalCost (CalculateCost_rnd binary64 sort_stable three_runs ''linux'' 7) =
     7493989779944505 / 2 ^ 56
   \<and> PerJob (CalculateCost_rnd binary64 sort_stable three_runs ''linux'' 7) ''build'' =
     Some (6917529027641082 / 2 ^ 58)
   \<and> PerJob (CalculateCost_rnd binary64 sort_stable three_runs ''linux'' 7) ''ios'' =
     Some (5764607523034235 / 2 ^ 56)
   \<and> dom (PerJob (CalculateCost_rnd binary64 sort_stable three_runs ''linux'' 7)) =
     {''build'', ''ios''}
   \<and> PerWorkflow (CalculateCost_rnd binary64 sort_stable three_runs ''linux'' 7) ''CI'' =
     Some (6917529027641082 / 2 ^ 58)
   \<and> PerWorkflow (CalculateCost_rnd binary64 sort_stable three_runs ''linux'' 7) ''Nightly'' =
     Some (5764607523034235 / 2 ^ 56)
   \<and> dom (PerWorkflow (CalculateCost_rnd binary64 sort_stable three_runs ''linux'' 7)) =
     {''CI'', ''Nightly''}
   \<and> sum_values (PerJob (CalculateCost_rnd binary64 sort_stable three_runs ''linux'' 7)) \<noteq>
     TotalCost (CalculateCost_rnd binary64 sort_stable three_runs ''linux'' 7)
   \<and> sum_values (PerWorkflow (CalculateCost_rnd binary64 sort_stable three_runs ''linux'' 7)) \<noteq>
     TotalCost (CalculateCost_rnd binary64 sort_stable three_runs ''linux'' 7)
   \<and> binary64 (6917529027641082 / 2 ^ 58 + 5764607523034235 / 2 ^ 56) =
     7493989779944506 / 2 ^ 56
   \<and> binary64 (5764607523034235 / 2 ^ 56 + 6917529027641082 / 2 ^ 58) =
     7493989779944506 / 2 ^ 56
   \<and> (7493989779944506 / 2 ^ 56 :: real) \<noteq> 7493989779944505 / 2 ^ 56"
proof -
  let ?r = "CalculateCost_rnd binary64 sort_stable three_runs ''linux'' 7"
  note run = three_runs_report [OF binary64_0 binary64_1 binary64_2]
  note vals = binary64_RateLinux binary64_RateMacOS binary64_A binary64_C binary64_2A
    binary64_A2 binary64_A_C binary64_AC_A2 binary64_A_A2
  have T: "TotalCost ?r = 7493989779944505 / 2 ^ 56"
    unfolding run(1) vals by (rule refl)
  have jb: "PerJob ?r ''build'' = Some (6917529027641082 / 2 ^ 58)"
    unfolding run(2) vals by (rule refl)
  have ji: "PerJob ?r ''ios'' = Some (5764607523034235 / 2 ^ 56)"
    unfolding run(3) vals by (rule refl)
  have dj: "dom (PerJob ?r) = {''build'', ''ios''}" by (rule run(4))
  have wc: "PerWorkflow ?r ''CI'' = Some (6917529027641082 / 2 ^ 58)"
    unfolding run(5) vals by (rule refl)
  have wn: "PerWorkflow ?r ''Nightly'' = Some (5764607523034235 / 2 ^ 56)"
    unfolding run(6) vals by (rule refl)
  have dw: "dom (PerWorkflow ?r) = {''CI'', ''Nightly''}" by (rule run(7))
  have sj: "sum_values (PerJob ?r) = 6917529027641082 / 2 ^ 58 + 5764607523034235 / 2 ^ 56"
    unfolding sum_values_def dj by (simp add: jb ji)
  have sw: "sum_values (PerWorkflow ?r) = 6917529027641082 / 2 ^ 58 + 5764607523034235 / 2 ^ 56"
    unfolding sum_values_def dw by (simp add: wc wn)
  have ne: "6917529027641082 / 2 ^ 58 + 5764607523034235 / 2 ^ 56 \<noteq>
      (7493989779944505 / 2 ^ 56 :: real)"
    by simp
  have nj: "sum_values (PerJob ?r) \<noteq> TotalCost ?r" unfolding sj T by (rule ne)
  have nw: "sum_values (PerWorkflow ?r) \<noteq> TotalCost ?r" unfolding sw T by (rule ne)
  have f1: "binary64 (6917529027641082 / 2 ^ 58 + 5764607523034235 / 2 ^ 56) =
      7493989779944506 / 2 ^ 56"
    by (rule binary64_PX_C)
  have f2: "binary64 (5764607523034235 / 2 ^ 56 + 6917529027641082 / 2 ^ 58) =
      7493989779944506 / 2 ^ 56"
    unfolding add.commute [of "5764607523034235 / 2 ^ 56" "6917529027641082 / 2 ^ 58"]
    by (rule binary64_PX_C)
  have f3: "(7493989779944506 / 2 ^ 56 :: real) \<noteq> 7493989779944505 / 2 ^ 56" by simp
  show ?thesis using T jb ji dj wc wn dw nj nw f1 f2 f3 by blast
qed

end
